theory Spec2Isabelle
  imports Main "HOL-Library.Sublist"
begin

section \<open>Data model\<close>

text \<open>
  The camera control client is a Node.js program. Its strings are modelled as HOL
  strings. Text received in an HTTP header is a sequence of 8-bit units (Node decodes
  header bytes as Latin-1), a body is a sequence of bytes. The operations on strings
  that the model defines itself look for ASCII characters only (and, in header text, for
  the no-break space that the class \<^verbatim>\<open>\s\<close> includes); the operations that depend
  on Unicode tables or on an encoding are taken from the environment (see \<open>env\<close>
  below). A JavaScript value that may be \<^verbatim>\<open>undefined\<close> or
  \<^verbatim>\<open>null\<close> is an \<^typ>\<open>'a option\<close>.

  A credential is the object \<^verbatim>\<open>{username, password}\<close>; the optional argument
  \<^verbatim>\<open>auth\<close> of every operation is a \<open>credential option\<close>.
\<close>

record credential =
  username :: string
  password :: string

text \<open>
  A challenge is the object built by \<^verbatim>\<open>parseAuthParams\<close> (or \<^verbatim>\<open>{}\<close>, or
  \<^verbatim>\<open>{nonce}\<close>): a dictionary from parameter names to strings.
\<close>

type_synonym challenge = "string \<rightharpoonup> string"

datatype scheme = Digest | Authn | Basic

record cached_auth =
  ca_scheme :: scheme
  ca_challenge :: challenge
  ca_cookie :: "string option"

type_synonym headers = "(string \<times> string) list"

datatype http_method = GET | POST

record request =
  rq_method :: http_method
  rq_url :: string
  rq_timeout :: nat
  rq_headers :: headers

text \<open>
  Of a response the program reads the status code, the headers
  \<^verbatim>\<open>www-authenticate\<close> (a string, when present) and \<^verbatim>\<open>set-cookie\<close> (an array,
  when present), and the body, which arrives as a sequence of chunks.
\<close>

record response =
  statusCode :: nat
  www_authenticate :: "string option"
  set_cookie :: "string list"
  chunks :: "string list"

record js_error =
  err_code :: "string option"
  message :: string

text \<open>
  What one HTTP request leads to: the response callback, the \<^verbatim>\<open>'error'\<close> event
  (which also stands for \<^verbatim>\<open>http.get\<close> refusing the URL, an error that reaches
  the same rejection) or the \<^verbatim>\<open>'timeout'\<close> event. The model takes every request
  to end in exactly one of the three, and a response to arrive with its whole body.
\<close>

datatype outcome = Responded response | Errored js_error | TimedOut

text \<open>
  Everything the program takes from outside its own source: the hash functions of
  \<^verbatim>\<open>crypto\<close> (hex digests), the string methods whose result depends on Unicode
  tables, the \<^verbatim>\<open>Buffer\<close> conversions (\<open>base64\<close> of a buffer's bytes,
  \<open>base64_text\<close> of a string, \<open>base64_decode\<close> of a base64 text to a string,
  \<open>utf8\<close> of bytes to a string), the random bytes drawn by
  \<^verbatim>\<open>crypto.randomBytes\<close>, the network and the frame drawn by the simulator.
  The network answers a request given the requests issued before it; \<open>randomHex n\<close>
  is the hex string drawn while the request number \<open>n\<close> is built. The theorems below
  hold for every such environment.
\<close>

record env =
  md5 :: "string \<Rightarrow> string"
  sha256 :: "string \<Rightarrow> string"
  toUpperCase :: "string \<Rightarrow> string"
  toLowerCase :: "string \<Rightarrow> string"
  trim :: "string \<Rightarrow> string"
  base64 :: "string \<Rightarrow> string"
  base64_text :: "string \<Rightarrow> string"
  base64_decode :: "string \<Rightarrow> string"
  utf8 :: "string \<Rightarrow> string"
  randomHex :: "nat \<Rightarrow> string"
  net :: "request list \<Rightarrow> request \<Rightarrow> outcome"
  mock_frame :: string

section \<open>JavaScript idioms\<close>

text \<open>A template literal renders an undefined value as the text \<^verbatim>\<open>undefined\<close>.\<close>

definition js_str :: "string option \<Rightarrow> string" where
  "js_str v = (case v of None \<Rightarrow> ''undefined'' | Some s \<Rightarrow> s)"

text \<open>Truthiness of a string that may be undefined or null: defined and not empty.\<close>

definition truthy :: "string option \<Rightarrow> bool" where
  "truthy v = (case v of None \<Rightarrow> False | Some s \<Rightarrow> s \<noteq> [])"

text \<open>\<^verbatim>\<open>v || d\<close> for a string \<open>v\<close> that may be undefined.\<close>

definition or_else :: "string option \<Rightarrow> string \<Rightarrow> string" where
  "or_else v d = (case v of None \<Rightarrow> d | Some s \<Rightarrow> (if s = [] then d else s))"

text \<open>\<^verbatim>\<open>s.split(c)[0]\<close>: the text before the first occurrence of \<open>c\<close>.\<close>

definition split_first :: "char \<Rightarrow> string \<Rightarrow> string" where
  "split_first c s = takeWhile (\<lambda>x. x \<noteq> c) s"

text \<open>\<^verbatim>\<open>s.includes(t)\<close>.\<close>

fun str_includes :: "string \<Rightarrow> string \<Rightarrow> bool" where
  "str_includes [] t = (t = [])"
| "str_includes (c # cs) t = (if prefix t (c # cs) then True else str_includes cs t)"

text \<open>
  \<^verbatim>\<open>obj[k] = v\<close> on a plain object: the key \<^verbatim>\<open>__proto__\<close> reaches the
  prototype setter, which ignores a primitive, so no property is stored.
\<close>

definition obj_set :: "(string \<rightharpoonup> 'v) \<Rightarrow> string \<Rightarrow> 'v \<Rightarrow> (string \<rightharpoonup> 'v)" where
  "obj_set r k v = (if k = ''__proto__'' then r else r(k \<mapsto> v))"

text \<open>
  \<^verbatim>\<open>headers[k] = v\<close> on the headers object: an existing key keeps its place, a new
  one is appended.
\<close>

fun hset :: "headers \<Rightarrow> string \<Rightarrow> string \<Rightarrow> headers" where
  "hset [] k v = [(k, v)]"
| "hset ((k', v') # hs) k v = (if k' = k then (k, v) # hs else (k', v') # hset hs k v)"

section \<open>Authentication scheme builders\<close>

subsection \<open>\<^verbatim>\<open>buildDigestAuth\<close>\<close>

text \<open>The locals of \<^verbatim>\<open>buildDigestAuth\<close>, in the order of the source.\<close>

definition digest_algo :: "env \<Rightarrow> challenge \<Rightarrow> string" where
  "digest_algo E ch = toUpperCase E (or_else (ch ''algorithm'') ''MD5'')"

definition digest_hash :: "env \<Rightarrow> challenge \<Rightarrow> string \<Rightarrow> string" where
  "digest_hash E ch = (if prefix ''SHA-256'' (digest_algo E ch) then sha256 E else md5 E)"

definition digest_ha1 :: "env \<Rightarrow> string \<Rightarrow> string \<Rightarrow> string \<Rightarrow> challenge \<Rightarrow> string" where
  "digest_ha1 E cnonce usr pwd ch =
     (let ha1 = digest_hash E ch (usr @ '':'' @ js_str (ch ''realm'') @ '':'' @ pwd)
      in if digest_algo E ch = ''MD5-SESS'' \<or> digest_algo E ch = ''SHA-256-SESS''
         then digest_hash E ch (ha1 @ '':'' @ js_str (ch ''nonce'') @ '':'' @ cnonce)
         else ha1)"

definition digest_ha2 :: "env \<Rightarrow> string \<Rightarrow> string \<Rightarrow> challenge \<Rightarrow> string" where
  "digest_ha2 E mth uri ch = digest_hash E ch (mth @ '':'' @ uri)"

definition digest_qop :: "env \<Rightarrow> challenge \<Rightarrow> string option" where
  "digest_qop E ch =
     (case ch ''qop'' of
        None \<Rightarrow> None
      | Some q \<Rightarrow> (if q = [] then None else Some (trim E (split_first (CHR '','') q))))"

definition digest_nc :: string where
  "digest_nc = ''00000001''"

definition digest_response ::
  "env \<Rightarrow> string \<Rightarrow> string \<Rightarrow> string \<Rightarrow> string \<Rightarrow> string \<Rightarrow> challenge \<Rightarrow> string" where
  "digest_response E cnonce mth uri usr pwd ch =
     (if truthy (digest_qop E ch)
      then digest_hash E ch
             (digest_ha1 E cnonce usr pwd ch @ '':'' @ js_str (ch ''nonce'') @ '':'' @ digest_nc
                @ '':'' @ cnonce @ '':'' @ js_str (digest_qop E ch) @ '':'' @ digest_ha2 E mth uri ch)
      else digest_hash E ch
             (digest_ha1 E cnonce usr pwd ch @ '':'' @ js_str (ch ''nonce'') @ '':''
                @ digest_ha2 E mth uri ch))"

text \<open>The header value before the two conditional extensions.\<close>

definition digest_header0 ::
  "env \<Rightarrow> string \<Rightarrow> string \<Rightarrow> string \<Rightarrow> string \<Rightarrow> string \<Rightarrow> challenge \<Rightarrow> string" where
  \<open>digest_header0 E cnonce mth uri usr pwd ch =
     ''Digest username="'' @ usr @ ''", realm="'' @ js_str (ch ''realm'')
       @ ''", nonce="'' @ js_str (ch ''nonce'') @ ''", uri="'' @ uri
       @ ''", algorithm='' @ digest_algo E ch
       @ '', response="'' @ digest_response E cnonce mth uri usr pwd ch @ ''"''\<close>

definition digest_header ::
  "env \<Rightarrow> string \<Rightarrow> string \<Rightarrow> string \<Rightarrow> string \<Rightarrow> string \<Rightarrow> challenge \<Rightarrow> string" where
  \<open>digest_header E cnonce mth uri usr pwd ch =
     (let h0 = digest_header0 E cnonce mth uri usr pwd ch;
          h1 = (if truthy (digest_qop E ch)
                then h0 @ '', qop='' @ js_str (digest_qop E ch) @ '', nc='' @ digest_nc
                       @ '', cnonce="'' @ cnonce @ ''"''
                else h0)
      in if truthy (ch ''opaque'')
         then h1 @ '', opaque="'' @ js_str (ch ''opaque'') @ ''"''
         else h1)\<close>

text \<open>The result is the pair \<^verbatim>\<open>{headerName, headerValue}\<close>.\<close>

definition buildDigestAuth ::
  "env \<Rightarrow> string \<Rightarrow> string \<Rightarrow> string \<Rightarrow> string \<Rightarrow> string \<Rightarrow> challenge
     \<Rightarrow> string \<times> string" where
  "buildDigestAuth E cnonce mth uri usr pwd ch =
     (''Authorization'', digest_header E cnonce mth uri usr pwd ch)"

subsection \<open>\<^verbatim>\<open>buildAuthnAuth\<close>\<close>

definition authn_ha1 :: "env \<Rightarrow> string \<Rightarrow> string \<Rightarrow> challenge \<Rightarrow> string" where
  "authn_ha1 E usr pwd ch = sha256 E (usr @ '':'' @ or_else (ch ''realm'') [] @ '':'' @ pwd)"

definition authn_ha2 :: "env \<Rightarrow> string \<Rightarrow> string" where
  "authn_ha2 E uri = sha256 E (''GET:'' @ uri)"

definition authn_response :: "env \<Rightarrow> string \<Rightarrow> string \<Rightarrow> string \<Rightarrow> string \<Rightarrow> challenge \<Rightarrow> string" where
  "authn_response E cnonce uri usr pwd ch =
     sha256 E (authn_ha1 E usr pwd ch @ '':'' @ js_str (ch ''nonce'') @ '':'' @ cnonce
                 @ '':'' @ authn_ha2 E uri)"

definition buildAuthnAuth ::
  "env \<Rightarrow> string \<Rightarrow> string \<Rightarrow> string \<Rightarrow> string \<Rightarrow> challenge \<Rightarrow> string \<times> string" where
  \<open>buildAuthnAuth E cnonce uri usr pwd ch =
     (''auth_tkt'',
      ''Authn username="'' @ usr @ ''", nonce="'' @ js_str (ch ''nonce'') @ ''", uri="'' @ uri
        @ ''", response="'' @ authn_response E cnonce uri usr pwd ch
        @ ''", cnonce="'' @ cnonce @ ''"'')\<close>

subsection \<open>\<^verbatim>\<open>buildBasicAuth\<close> and \<^verbatim>\<open>buildRetryHeaders\<close>\<close>

definition buildBasicAuth :: "env \<Rightarrow> string \<Rightarrow> string \<Rightarrow> string \<times> string" where
  "buildBasicAuth E usr pwd = (''Authorization'', ''Basic '' @ base64_text E (usr @ '':'' @ pwd))"

definition buildRetryHeaders ::
  "env \<Rightarrow> string \<Rightarrow> scheme \<Rightarrow> string \<Rightarrow> credential \<Rightarrow> challenge \<Rightarrow> string option \<Rightarrow> headers" where
  "buildRetryHeaders E cnonce sch uri a ch cookie =
     (let hs = [(''Connection'', ''close'')] in
      case sch of
        Digest \<Rightarrow>
          (case buildDigestAuth E cnonce ''GET'' uri (username a) (password a) ch of
             (n, v) \<Rightarrow> hset hs n v)
      | Authn \<Rightarrow>
          (case buildAuthnAuth E cnonce uri (username a) (password a) ch of
             (n, v) \<Rightarrow>
               (let hs1 = hset (hset hs n v) ''User-From'' ''www''
                in if truthy cookie then hset hs1 ''Cookie'' (js_str cookie) else hs1))
      | Basic \<Rightarrow>
          (case buildBasicAuth E (username a) (password a) of
             (n, v) \<Rightarrow> hset hs n v))"

section \<open>\<^verbatim>\<open>parseAuthParams\<close>\<close>

text \<open>
  The source scans the header with the global regular expression
  \<^verbatim>\<open>(\w+)=(?:"([^"]*?)"|([^\s,]+))\<close> and stores group 2, or else group 3, under
  group 1. \<open>word_char\<close> is the class \<^verbatim>\<open>\w\<close>, \<open>space_char\<close> the class
  \<^verbatim>\<open>\s\<close> on 8-bit units (tab, line feed, vertical tab, form feed, carriage
  return, space, no-break space).
\<close>

definition word_char :: "char \<Rightarrow> bool" where
  "word_char c =
     (c \<in> set ''abcdefghijklmnopqrstuvwxyzABCDEFGHIJKLMNOPQRSTUVWXYZ0123456789_'')"

definition space_char :: "char \<Rightarrow> bool" where
  "space_char c =
     (c \<in> set [CHR 0x09, CHR 0x0A, CHR 0x0B, CHR 0x0C, CHR 0x0D, CHR 0x20, CHR 0xA0])"

text \<open>The second alternative of the value: a non-empty run without whitespace or comma.\<close>

definition match_bare :: "string \<Rightarrow> (string \<times> string) option" where
  "match_bare s =
     (let v = takeWhile (\<lambda>c. \<not> space_char c \<and> c \<noteq> CHR '','') s
      in if v = [] then None
         else Some (v, dropWhile (\<lambda>c. \<not> space_char c \<and> c \<noteq> CHR '','') s))"

text \<open>
  The value after the equals sign: a quoted text up to the next quote when there is one,
  the bare alternative otherwise (which then starts at the opening quote itself).
\<close>

definition match_value :: "string \<Rightarrow> (string \<times> string) option" where
  "match_value s =
     (case s of
        [] \<Rightarrow> match_bare s
      | c # t \<Rightarrow>
          (if c = CHR 0x22 then
             (if CHR 0x22 \<in> set t
              then Some (takeWhile (\<lambda>x. x \<noteq> CHR 0x22) t, tl (dropWhile (\<lambda>x. x \<noteq> CHR 0x22) t))
              else match_bare s)
           else match_bare s))"

text \<open>
  A match that starts at the head of the text: the longest run of word characters (a
  shorter one is followed by a word character, never by the equals sign), the equals
  sign, the value. The result is the key, the value and the text after the match.
\<close>

definition match_here :: "string \<Rightarrow> (string \<times> string \<times> string) option" where
  "match_here s =
     (let w = takeWhile word_char s in
      if w = [] then None
      else (case dropWhile word_char s of
              [] \<Rightarrow> None
            | c # r \<Rightarrow>
                (if c = CHR ''='' then
                   (case match_value r of
                      None \<Rightarrow> None
                    | Some (v, rest) \<Rightarrow> Some (w, v, rest))
                 else None)))"

lemma match_bare_shorter: "match_bare s = Some (v, rest) \<Longrightarrow> length rest \<le> length s"
  by (auto simp: match_bare_def Let_def length_dropWhile_le split: if_splits)

lemma match_value_shorter: "match_value s = Some (v, rest) \<Longrightarrow> length rest \<le> length s"
proof (cases s)
  case Nil
  then show "match_value s = Some (v, rest) \<Longrightarrow> length rest \<le> length s"
    by (simp add: match_value_def match_bare_def)
next
  case (Cons c t)
  have "length (dropWhile (\<lambda>x. x \<noteq> CHR 0x22) t) \<le> length t"
    by (rule length_dropWhile_le)
  then have "length (tl (dropWhile (\<lambda>x. x \<noteq> CHR 0x22) t)) \<le> length t"
    by simp
  with Cons show "match_value s = Some (v, rest) \<Longrightarrow> length rest \<le> length s"
    by (auto simp: match_value_def split: if_splits dest: match_bare_shorter)
qed

lemma match_here_shorter:
  assumes "match_here s = Some (k, v, rest)"
  shows "length rest < length s"
proof -
  from assms obtain c r where d: "dropWhile word_char s = c # r" and m: "match_value r = Some (v, rest)"
    by (auto simp: match_here_def Let_def split: if_splits list.splits option.splits)
  have "length (dropWhile word_char s) \<le> length s"
    by (rule length_dropWhile_le)
  with d have "length r < length s" by simp
  with match_value_shorter [OF m] show ?thesis by simp
qed

text \<open>
  The loop over \<^verbatim>\<open>re.exec\<close>: the leftmost match from the current position, then on
  from its end.
\<close>

function scan_params :: "string \<Rightarrow> challenge \<Rightarrow> challenge" where
  "scan_params [] params = params"
| "scan_params (c # cs) params =
     (case match_here (c # cs) of
        None \<Rightarrow> scan_params cs params
      | Some (k, v, rest) \<Rightarrow> scan_params rest (obj_set params k v))"
  by pat_completeness auto
termination
  by (relation "measure (\<lambda>(s, p). length s)") (auto dest: match_here_shorter)

definition parseAuthParams :: "string \<Rightarrow> challenge" where
  "parseAuthParams header = scan_params header Map.empty"

section \<open>The authenticated transport\<close>

text \<open>
  The state of the transport is the module-level \<^verbatim>\<open>authCache\<close>, a map from the
  camera's address to the last negotiated scheme. The model adds the log of the requests
  issued so far, each with what the network made of it, so that the theorems can speak
  about the requests an operation performs. One operation is modelled from its call to
  the callback that ends it, with no other operation interleaved.
\<close>

record tstate =
  authCache :: "string \<rightharpoonup> cached_auth"
  log :: "(request \<times> outcome) list"

text \<open>Issuing one request: the network answers, the log grows by one entry.\<close>

definition http_request :: "env \<Rightarrow> tstate \<Rightarrow> request \<Rightarrow> outcome \<times> tstate" where
  "http_request E s rq =
     (let oc = net E (map fst (log s)) rq
      in (oc, s\<lparr>log := log s @ [(rq, oc)]\<rparr>))"

text \<open>
  The test \<^verbatim>\<open>auth && auth.username && auth.password\<close>: the credential, when it is
  given with a non-empty user name and password.
\<close>

definition usable :: "credential option \<Rightarrow> credential option" where
  "usable auth =
     (case auth of
        None \<Rightarrow> None
      | Some a \<Rightarrow> (if username a = [] then None else if password a = [] then None else Some a))"

definition timeout_error :: js_error where
  "timeout_error = \<lparr>err_code = None, message = ''Request timed out''\<rparr>"

text \<open>The dash of this message is U+2014, written here as its three UTF-8 bytes.\<close>

definition unknown_scheme_error :: js_error where
  "unknown_scheme_error =
     \<lparr>err_code = None,
      message = ''401 Unauthorized '' @ [CHR 0xE2, CHR 0x80, CHR 0x94] @ '' unknown auth scheme''\<rparr>"

definition auth_rejected_error :: js_error where
  "auth_rejected_error = \<lparr>err_code = None, message = ''401 Unauthorized - check credentials''\<rparr>"

text \<open>\<^verbatim>\<open>setCookies.find(c => c.startsWith('auth_tkt='))\<close>.\<close>

definition find_tkt :: "string list \<Rightarrow> string option" where
  "find_tkt setCookies = find (prefix ''auth_tkt='') setCookies"

text \<open>
  \<^verbatim>\<open>c.split('=').slice(1).join('=')\<close>: the text after the first equals sign (empty
  when there is none).
\<close>

definition after_first_eq :: "string \<Rightarrow> string" where
  "after_first_eq c = drop 1 (dropWhile (\<lambda>x. x \<noteq> CHR ''='') c)"

text \<open>
  The scheme detection of \<^verbatim>\<open>authGetFresh\<close> on a 401 response: the scheme, the
  challenge and the cookie, or nothing when no scheme is recognised. (The source guards
  the decoding of the cookie with a \<^verbatim>\<open>try\<close>; nothing in it throws on a string.)
\<close>

definition detect_scheme :: "env \<Rightarrow> response \<Rightarrow> (scheme \<times> challenge \<times> string option) option" where
  "detect_scheme E res =
     (let wwwAuth = or_else (www_authenticate res) [];
          setCookies = set_cookie res;
          wwwLower = toLowerCase E wwwAuth
      in if prefix ''digest'' wwwLower then Some (Digest, parseAuthParams wwwAuth, None)
         else if prefix ''authn'' wwwLower \<or> prefix ''auth_tkt'' wwwLower then
           Some (Authn, parseAuthParams wwwAuth,
                 (case find_tkt setCookies of
                    None \<Rightarrow> None
                  | Some tkt \<Rightarrow> (if tkt = [] then None else Some (split_first (CHR '';'') tkt))))
         else if prefix ''basic'' wwwLower then Some (Basic, Map.empty, None)
         else (case find_tkt setCookies of
                 None \<Rightarrow> None
               | Some tkt \<Rightarrow>
                   (if tkt = [] then None
                    else Some (Authn,
                               [''nonce'' \<mapsto>
                                  split_first (CHR ''!'')
                                    (base64_decode E (split_first (CHR '';'') (after_first_eq tkt)))],
                               Some (split_first (CHR '';'') tkt)))))"

definition plain_request :: "string \<Rightarrow> string \<Rightarrow> nat \<Rightarrow> request" where
  "plain_request ip urlPath tmo =
     \<lparr>rq_method = GET, rq_url = ''http://'' @ ip @ urlPath, rq_timeout = tmo,
      rq_headers = [(''Connection'', ''close'')]\<rparr>"

definition auth_request ::
  "env \<Rightarrow> tstate \<Rightarrow> string \<Rightarrow> string \<Rightarrow> nat \<Rightarrow> credential \<Rightarrow> scheme \<Rightarrow> challenge
     \<Rightarrow> string option \<Rightarrow> request" where
  "auth_request E s ip urlPath tmo a sch ch cookie =
     \<lparr>rq_method = GET, rq_url = ''http://'' @ ip @ urlPath, rq_timeout = tmo,
      rq_headers = buildRetryHeaders E (randomHex E (length (log s))) sch urlPath a ch cookie\<rparr>"

text \<open>
  \<^verbatim>\<open>authGetFresh\<close>. The result is the callback that ends the operation:
  \<open>Inr res\<close> for \<^verbatim>\<open>onResponse(res)\<close>, \<open>Inl err\<close> for \<^verbatim>\<open>onError(err)\<close>.
\<close>

definition authGetFresh ::
  "env \<Rightarrow> string \<Rightarrow> string \<Rightarrow> nat \<Rightarrow> credential option \<Rightarrow> tstate
     \<Rightarrow> (js_error + response) \<times> tstate" where
  "authGetFresh E ip urlPath tmo auth s =
     (case http_request E s (plain_request ip urlPath tmo) of
        (Errored err, s1) \<Rightarrow> (Inl err, s1)
      | (TimedOut, s1) \<Rightarrow> (Inl timeout_error, s1)
      | (Responded res, s1) \<Rightarrow>
          (if statusCode res = 401 then
             (case usable auth of
                None \<Rightarrow> (Inr res, s1)
              | Some a \<Rightarrow>
                  (case detect_scheme E res of
                     None \<Rightarrow> (Inl unknown_scheme_error, s1)
                   | Some (sch, ch, cookie) \<Rightarrow>
                       (case http_request E s1 (auth_request E s1 ip urlPath tmo a sch ch cookie) of
                          (Errored err, s2) \<Rightarrow> (Inl err, s2)
                        | (TimedOut, s2) \<Rightarrow> (Inl timeout_error, s2)
                        | (Responded res2, s2) \<Rightarrow>
                            (if statusCode res2 = 401 then (Inl auth_rejected_error, s2)
                             else (Inr res2,
                                   s2\<lparr>authCache := (authCache s2)
                                        (ip \<mapsto> \<lparr>ca_scheme = sch, ca_challenge = ch,
                                                ca_cookie = cookie\<rparr>)\<rparr>)))))
           else (Inr res, s1)))"

text \<open>\<^verbatim>\<open>authGet\<close>: the cached scheme first, when there is one and a credential.\<close>

definition authGet ::
  "env \<Rightarrow> string \<Rightarrow> string \<Rightarrow> nat \<Rightarrow> credential option \<Rightarrow> tstate
     \<Rightarrow> (js_error + response) \<times> tstate" where
  "authGet E ip urlPath tmo auth s =
     (case authCache s ip of
        None \<Rightarrow> authGetFresh E ip urlPath tmo auth s
      | Some cached \<Rightarrow>
          (case usable auth of
             None \<Rightarrow> authGetFresh E ip urlPath tmo auth s
           | Some a \<Rightarrow>
               (case http_request E s
                       (auth_request E s ip urlPath tmo a (ca_scheme cached)
                          (ca_challenge cached) (ca_cookie cached)) of
                  (Errored err, s1) \<Rightarrow> (Inl err, s1)
                | (TimedOut, s1) \<Rightarrow> (Inl timeout_error, s1)
                | (Responded res, s1) \<Rightarrow>
                    (if statusCode res = 401
                     then authGetFresh E ip urlPath tmo auth
                            (s1\<lparr>authCache := (authCache s1)(ip := None)\<rparr>)
                     else (Inr res, s1)))))"

section \<open>HTTP helpers\<close>

text \<open>
  The three helpers return a promise. It is modelled by its settlement: \<open>Inr\<close> the
  value it resolves with, \<open>Inl\<close> the message of the error it rejects with (the
  operations read nothing else of a rejection).
\<close>

definition get_error_message :: "js_error \<Rightarrow> string" where
  "get_error_message e =
     (if err_code e = Some ''ECONNREFUSED''
      then ''Connection refused - camera may be offline or IP is incorrect''
      else if err_code e = Some ''EHOSTUNREACH'' \<or> err_code e = Some ''ENETUNREACH''
      then ''Network unreachable - check network connection''
      else if err_code e = Some ''ETIMEDOUT''
      then ''Connection timed out - camera not responding''
      else message e)"

definition short_error_message :: "js_error \<Rightarrow> string" where
  "short_error_message e =
     (if err_code e = Some ''ECONNREFUSED'' then ''Connection refused - camera may be offline''
      else if err_code e = Some ''ETIMEDOUT'' then ''Connection timed out''
      else message e)"

text \<open>\<^verbatim>\<open>httpGet\<close> resolves with the decoded chunks of the body, whatever the status.\<close>

definition httpGet ::
  "env \<Rightarrow> string \<Rightarrow> string \<Rightarrow> nat \<Rightarrow> credential option \<Rightarrow> tstate
     \<Rightarrow> (string + string) \<times> tstate" where
  "httpGet E ip urlPath tmo auth s =
     (case authGet E ip urlPath tmo auth s of
        (Inl err, s') \<Rightarrow> (Inl (get_error_message err), s')
      | (Inr res, s') \<Rightarrow> (Inr (concat (map (utf8 E) (chunks res))), s'))"

text \<open>\<^verbatim>\<open>httpGetBinary\<close> rejects a 404 and resolves with the bytes of the body otherwise.\<close>

definition httpGetBinary ::
  "env \<Rightarrow> string \<Rightarrow> string \<Rightarrow> nat \<Rightarrow> credential option \<Rightarrow> tstate
     \<Rightarrow> (string + string) \<times> tstate" where
  "httpGetBinary E ip urlPath tmo auth s =
     (case authGet E ip urlPath tmo auth s of
        (Inl err, s') \<Rightarrow> (Inl (short_error_message err), s')
      | (Inr res, s') \<Rightarrow>
          (if statusCode res = 404 then (Inl ''404 Not Found - endpoint not supported'', s')
           else (Inr (concat (chunks res)), s')))"

text \<open>\<^verbatim>\<open>Object.assign(headers, extra)\<close>.\<close>

definition assign_headers :: "headers \<Rightarrow> headers \<Rightarrow> headers" where
  "assign_headers hs extra = foldl (\<lambda>h (k, v). hset h k v) hs extra"

text \<open>
  \<^verbatim>\<open>httpPost\<close>: one request, with the cached scheme's headers when there is a
  cached entry and a credential. (The request's host, port and path are those of the
  URL.)
\<close>

definition post_request ::
  "env \<Rightarrow> tstate \<Rightarrow> string \<Rightarrow> string \<Rightarrow> nat \<Rightarrow> credential option \<Rightarrow> request" where
  "post_request E s ip urlPath tmo auth =
     (let hs = [(''Connection'', ''close''), (''Content-Length'', ''0'')] in
      \<lparr>rq_method = POST, rq_url = ''http://'' @ ip @ urlPath, rq_timeout = tmo,
       rq_headers =
         (case authCache s ip of
            None \<Rightarrow> hs
          | Some cached \<Rightarrow>
              (case usable auth of
                 None \<Rightarrow> hs
               | Some a \<Rightarrow>
                   assign_headers hs
                     (buildRetryHeaders E (randomHex E (length (log s))) (ca_scheme cached)
                        urlPath a (ca_challenge cached) (ca_cookie cached))))\<rparr>)"

definition httpPost ::
  "env \<Rightarrow> string \<Rightarrow> string \<Rightarrow> nat \<Rightarrow> credential option \<Rightarrow> tstate
     \<Rightarrow> (string + string) \<times> tstate" where
  "httpPost E ip urlPath tmo auth s =
     (case http_request E s (post_request E s ip urlPath tmo auth) of
        (Errored err, s') \<Rightarrow> (Inl (short_error_message err), s')
      | (TimedOut, s') \<Rightarrow> (Inl (short_error_message timeout_error), s')
      | (Responded res, s') \<Rightarrow> (Inr (concat (map (utf8 E) (chunks res))), s'))"

section \<open>Command dispatcher\<close>

text \<open>
  Every operation answers \<^verbatim>\<open>{success: true, ...}\<close> or
  \<^verbatim>\<open>{success: false, error}\<close>. An argument that the source interpolates into the
  request path is given by its rendered text, \<open>None\<close> when the caller passes
  \<^verbatim>\<open>undefined\<close> and the parameter's default applies. For the address
  \<^verbatim>\<open>mock\<close> the operations answer from the simulator, whose position state is not
  part of the model.
\<close>

datatype 'a reply = Success 'a | Failure string

definition arg_or :: "string option \<Rightarrow> string \<Rightarrow> string" where
  "arg_or v d = (case v of None \<Rightarrow> d | Some x \<Rightarrow> x)"

subsection \<open>Movement\<close>

definition ptz_path :: "env \<Rightarrow> string \<Rightarrow> string \<Rightarrow> string \<Rightarrow> string" where
  "ptz_path E cmd s1 s2 =
     (let urlPath = ''/cgi-bin/ptzctrl.cgi?ptzcmd&'' @ cmd in
      if toLowerCase E cmd = ''home'' then urlPath
      else if prefix ''pos'' (toLowerCase E cmd) then urlPath @ ''&'' @ s1
      else urlPath @ ''&'' @ s1 @ ''&'' @ s2)"

definition camera_ptz ::
  "env \<Rightarrow> string \<Rightarrow> string \<Rightarrow> string option \<Rightarrow> string option \<Rightarrow> credential option \<Rightarrow> tstate
     \<Rightarrow> unit reply \<times> tstate" where
  "camera_ptz E ip cmd s1 s2 auth s =
     (if ip = ''mock'' then (Success (), s)
      else (case httpGet E ip (ptz_path E cmd (arg_or s1 ''5'') (arg_or s2 ''5'')) 4000 auth s of
              (Inl msg, s') \<Rightarrow> (Failure msg, s')
            | (Inr resp, s') \<Rightarrow>
                (if str_includes resp ''401'' \<or> str_includes resp ''Unauthorized''
                 then (Failure ''Authentication required for PTZ control'', s')
                 else (Success (), s'))))"

text \<open>
  The other movement operations share one shape: one \<^verbatim>\<open>httpGet\<close>, whose body is
  not read.
\<close>

definition get_and_succeed ::
  "env \<Rightarrow> string \<Rightarrow> string \<Rightarrow> credential option \<Rightarrow> tstate \<Rightarrow> unit reply \<times> tstate" where
  "get_and_succeed E ip urlPath auth s =
     (if ip = ''mock'' then (Success (), s)
      else (case httpGet E ip urlPath 4000 auth s of
              (Inl msg, s') \<Rightarrow> (Failure msg, s')
            | (Inr resp, s') \<Rightarrow> (Success (), s')))"

definition camera_zoom ::
  "env \<Rightarrow> string \<Rightarrow> string \<Rightarrow> string option \<Rightarrow> credential option \<Rightarrow> tstate
     \<Rightarrow> unit reply \<times> tstate" where
  "camera_zoom E ip dir spd auth s =
     get_and_succeed E ip (''/cgi-bin/ptzctrl.cgi?ptzcmd&'' @ dir @ ''&'' @ arg_or spd ''3'') auth s"

definition camera_focus ::
  "env \<Rightarrow> string \<Rightarrow> string \<Rightarrow> credential option \<Rightarrow> tstate \<Rightarrow> unit reply \<times> tstate" where
  "camera_focus E ip cmd auth s =
     get_and_succeed E ip (''/cgi-bin/ptzctrl.cgi?ptzcmd&'' @ cmd @ ''&3'') auth s"

definition camera_ptzReset ::
  "env \<Rightarrow> string \<Rightarrow> credential option \<Rightarrow> tstate \<Rightarrow> unit reply \<times> tstate" where
  "camera_ptzReset E ip auth s =
     get_and_succeed E ip ''/cgi-bin/param.cgi?pan_tiltdrive_reset'' auth s"

definition camera_osdNavigate ::
  "env \<Rightarrow> string \<Rightarrow> string \<Rightarrow> credential option \<Rightarrow> tstate \<Rightarrow> unit reply \<times> tstate" where
  "camera_osdNavigate E ip cmd auth s =
     get_and_succeed E ip (''/cgi-bin/ptzctrl.cgi?ptzcmd&'' @ cmd) auth s"

subsection \<open>\<^verbatim>\<open>zoomTo\<close>\<close>

text \<open>
  The position is a JavaScript number, and \<^verbatim>\<open>Number(position)\<close> is that number.
  A number is NaN, an infinity, or a finite double; every finite double is an integer
  divided by a power of two, and \<open>Dyadic m k\<close> stands for \<open>m / 2 ^ k\<close>. (The two
  zeros of a double are one number here: \<^verbatim>\<open>Math.max(0, -0)\<close> is 0 and both are
  written \<^verbatim>\<open>0\<close>.)
\<close>

datatype jsnum = NaN | NegInfinity | PosInfinity | Dyadic int nat

text \<open>The comparison \<^verbatim>\<open><\<close> of two numbers; it is false as soon as one is NaN.\<close>

fun js_less :: "jsnum \<Rightarrow> jsnum \<Rightarrow> bool" where
  "js_less NaN y = False"
| "js_less x NaN = False"
| "js_less NegInfinity NegInfinity = False"
| "js_less NegInfinity y = True"
| "js_less x NegInfinity = False"
| "js_less PosInfinity y = False"
| "js_less x PosInfinity = True"
| "js_less (Dyadic m k) (Dyadic m' k') = (m * 2 ^ k' < m' * 2 ^ k)"

text \<open>\<^verbatim>\<open>Math.min(a, b)\<close> and \<^verbatim>\<open>Math.max(a, b)\<close>: NaN as soon as one argument is.\<close>

definition math_min :: "jsnum \<Rightarrow> jsnum \<Rightarrow> jsnum" where
  "math_min a b = (if a = NaN \<or> b = NaN then NaN else if js_less b a then b else a)"

definition math_max :: "jsnum \<Rightarrow> jsnum \<Rightarrow> jsnum" where
  "math_max a b = (if a = NaN \<or> b = NaN then NaN else if js_less a b then b else a)"

text \<open>
  \<^verbatim>\<open>toString(16)\<close>. A whole number is written as its magnitude in lowercase
  hexadecimal digits, after a minus sign when it is negative. A number with a fraction
  is written with a point and the hexadecimal digits of the fraction, which end (the
  fraction of \<open>m / 2 ^ k\<close> has at most \<open>k\<close> of them); this is what the V8 engine of the
  program's runtime prints for a double.
\<close>

definition hex_digit :: "nat \<Rightarrow> char" where
  "hex_digit d = ''0123456789abcdef'' ! d"

fun to_hex :: "nat \<Rightarrow> string" where
  "to_hex n = (if n < 16 then [hex_digit n] else to_hex (n div 16) @ [hex_digit (n mod 16)])"

declare to_hex.simps [simp del]

text \<open>The digits of the fraction \<open>r / 2 ^ k\<close>, at most \<open>fuel\<close> of them.\<close>

primrec frac_hex :: "nat \<Rightarrow> nat \<Rightarrow> nat \<Rightarrow> string" where
  "frac_hex 0 r k = []"
| "frac_hex (Suc fuel) r k =
     (if r = 0 then []
      else hex_digit ((16 * r) div 2 ^ k) # frac_hex fuel ((16 * r) mod 2 ^ k) k)"

definition toString16 :: "jsnum \<Rightarrow> string" where
  "toString16 x =
     (case x of
        NaN \<Rightarrow> ''NaN''
      | NegInfinity \<Rightarrow> ''-Infinity''
      | PosInfinity \<Rightarrow> ''Infinity''
      | Dyadic m k \<Rightarrow>
          (let whole = nat (\<bar>m\<bar> div 2 ^ k);
               r = nat (\<bar>m\<bar> mod 2 ^ k)
           in (if m < 0 then ''-'' else []) @ to_hex whole
              @ (if r = 0 then [] else ''.'' @ frac_hex k r k)))"

definition padStart :: "nat \<Rightarrow> char \<Rightarrow> string \<Rightarrow> string" where
  "padStart n c s = replicate (n - length s) c @ s"

definition zoom_pos_hex :: "jsnum \<Rightarrow> string" where
  "zoom_pos_hex position =
     padStart 4 (CHR ''0'')
       (toString16 (math_max (Dyadic 0 0) (math_min (Dyadic 16384 0) position)))"

definition zoomTo_path :: "jsnum \<Rightarrow> string \<Rightarrow> string" where
  "zoomTo_path position speed =
     ''/cgi-bin/ptzctrl.cgi?ptzcmd&zoomto&'' @ speed @ ''&'' @ zoom_pos_hex position"

definition camera_zoomTo ::
  "env \<Rightarrow> string \<Rightarrow> jsnum \<Rightarrow> string option \<Rightarrow> credential option \<Rightarrow> tstate
     \<Rightarrow> unit reply \<times> tstate" where
  "camera_zoomTo E ip position speed auth s =
     get_and_succeed E ip (zoomTo_path position (arg_or speed ''7'')) auth s"

subsection \<open>Snapshot\<close>

text \<open>The check of the body that \<^verbatim>\<open>camera:snapshot\<close> makes once it has one.\<close>

definition snapshot_reply :: "env \<Rightarrow> string \<Rightarrow> (string \<times> string option) reply" where
  \<open>snapshot_reply E buf =
     (if length buf < 1000 then
        (let textResponse = utf8 E buf in
         if str_includes textResponse ''<!DOCTYPE'' \<or> str_includes textResponse ''<html'' then
           (if str_includes textResponse ''401'' \<or> str_includes textResponse ''Unauthorized''
            then Failure ''Authentication required for snapshots''
            else Failure ''Camera returned error page instead of image'')
         else Success (base64 E buf, None))
      else Success (base64 E buf, None))\<close>

text \<open>
  The body comes from \<^verbatim>\<open>/cgi-bin/snapshot.cgi\<close>, or from \<^verbatim>\<open>/snapshot.jpg\<close>
  when the first read is rejected. The reply carries the data and, for the simulator
  only, a MIME type.
\<close>

definition fetch_snapshot ::
  "env \<Rightarrow> string \<Rightarrow> credential option \<Rightarrow> tstate \<Rightarrow> (string + string) \<times> tstate" where
  "fetch_snapshot E ip auth s =
     (case httpGetBinary E ip ''/cgi-bin/snapshot.cgi'' 5000 auth s of
        (Inr buf, s1) \<Rightarrow> (Inr buf, s1)
      | (Inl e, s1) \<Rightarrow> httpGetBinary E ip ''/snapshot.jpg'' 5000 auth s1)"

definition camera_snapshot ::
  "env \<Rightarrow> string \<Rightarrow> credential option \<Rightarrow> tstate \<Rightarrow> (string \<times> string option) reply \<times> tstate" where
  "camera_snapshot E ip auth s =
     (if ip = ''mock'' then (Success (base64_text E (mock_frame E), Some ''image/svg+xml''), s)
      else (case fetch_snapshot E ip auth s of
              (Inl msg, s') \<Rightarrow> (Failure msg, s')
            | (Inr buf, s') \<Rightarrow> (snapshot_reply E buf, s')))"

section \<open>Configuration text: \<^verbatim>\<open>parse\<close>\<close>

text \<open>
  A configuration value is a number or a string. What \<^verbatim>\<open>isNaN\<close> and
  \<^verbatim>\<open>Number\<close> make of a text, and which numbers are truthy (all but zero), is
  floating-point arithmetic; the model takes the three as given, over any type \<open>'n\<close>
  of numbers.
\<close>

datatype 'n jsval = JNum 'n | JStr string

record 'n numeric =
  js_isNaN :: "string \<Rightarrow> bool"
  js_Number :: "string \<Rightarrow> 'n"
  num_truthy :: "'n \<Rightarrow> bool"

type_synonym 'n config = "string \<rightharpoonup> 'n jsval"

definition is_newline :: "char \<Rightarrow> bool" where
  "is_newline c = (c = CHR 0x0D \<or> c = CHR 0x0A)"

lemma dropWhile_newline_shorter:
  assumes "dropWhile (\<lambda>c. \<not> is_newline c) s \<noteq> []"
  shows "length (dropWhile is_newline (dropWhile (\<lambda>c. \<not> is_newline c) s)) < length s"
proof -
  obtain c r where r: "dropWhile (\<lambda>c. \<not> is_newline c) s = c # r"
    using assms by (cases "dropWhile (\<lambda>c. \<not> is_newline c) s") auto
  then have "is_newline c"
    using hd_dropWhile [of "\<lambda>c. \<not> is_newline c" s] by simp
  then have "length (dropWhile is_newline (c # r)) \<le> length r"
    by (simp add: length_dropWhile_le)
  moreover have "length (c # r) \<le> length s"
    using length_dropWhile_le [of "\<lambda>c. \<not> is_newline c" s] r by simp
  ultimately show ?thesis using r by simp
qed

lemma split_lines_decreases:
  assumes "x \<in> set s" "is_newline x"
  shows "length (dropWhile is_newline (dropWhile (\<lambda>c. \<not> is_newline c) s)) < length s"
proof (rule dropWhile_newline_shorter)
  from assms show "dropWhile (\<lambda>c. \<not> is_newline c) s \<noteq> []" by auto
qed

text \<open>\<^verbatim>\<open>raw.split(/[\r\n]+/)\<close>.\<close>

function split_lines :: "string \<Rightarrow> string list" where
  "split_lines s =
     (let l = takeWhile (\<lambda>c. \<not> is_newline c) s;
          r = dropWhile (\<lambda>c. \<not> is_newline c) s
      in if r = [] then [l] else l # split_lines (dropWhile is_newline r))"
  by pat_completeness auto
termination
  by (relation "measure length") (auto intro: split_lines_decreases)

declare split_lines.simps [simp del]

text \<open>
  One line of the loop: a line whose first equals sign stands after at least one
  character stores the trimmed text after the sign under the trimmed text before it.
\<close>

definition parse_line :: "'n numeric \<Rightarrow> env \<Rightarrow> 'n config \<Rightarrow> string \<Rightarrow> 'n config" where
  "parse_line N E r line =
     (let before = takeWhile (\<lambda>c. c \<noteq> CHR ''='') line;
          from_eq = dropWhile (\<lambda>c. c \<noteq> CHR ''='') line
      in if from_eq = [] then r
         else if before = [] then r
         else (let k = trim E before; v = trim E (drop 1 from_eq)
               in obj_set r k (if js_isNaN N v then JStr v else JNum (js_Number N v))))"

definition parse :: "'n numeric \<Rightarrow> env \<Rightarrow> string \<Rightarrow> 'n config" where
  "parse N E raw = foldl (parse_line N E) Map.empty (split_lines raw)"

section \<open>Connect\<close>

text \<open>
  \<^verbatim>\<open>camera:connect\<close> awaits the device-info read
  (\<^verbatim>\<open>/cgi-bin/param.cgi?get_device_conf\<close>), then issues the image, exposure and
  focus reads (\<^verbatim>\<open>get_image_conf\<close>, \<^verbatim>\<open>get_exposure_conf\<close>,
  \<^verbatim>\<open>get_focus_conf\<close>) together and joins them. The three run interleaved, so the
  handler is modelled on the settlements of its four reads (as \<open>httpGet\<close> gives them:
  \<open>Inr\<close> the body, \<open>Inl\<close> the error's message) and on the order in which the three
  concurrent ones settle, which is the order in which their handlers run.
\<close>

datatype conf_group = ImageConf | ExposureConf | FocusConf

definition group_label :: "conf_group \<Rightarrow> string" where
  "group_label g =
     (case g of ImageConf \<Rightarrow> ''Image conf'' | ExposureConf \<Rightarrow> ''Exposure conf''
      | FocusConf \<Rightarrow> ''Focus conf'')"

text \<open>The locals \<^verbatim>\<open>info\<close>, \<^verbatim>\<open>hadAnyResponse\<close> and \<^verbatim>\<open>errors\<close>.\<close>

record 'n connect_locals =
  c_info :: "'n config"
  hadAnyResponse :: bool
  errors :: "string list"

definition connect_init :: "'n connect_locals" where
  "connect_init = \<lparr>c_info = Map.empty, hadAnyResponse = False, errors = []\<rparr>"

definition device_step ::
  "'n numeric \<Rightarrow> env \<Rightarrow> string + string \<Rightarrow> 'n connect_locals \<Rightarrow> 'n connect_locals" where
  "device_step N E dev L =
     (case dev of
        Inr deviceConf \<Rightarrow> L\<lparr>c_info := parse N E deviceConf, hadAnyResponse := True\<rparr>
      | Inl msg \<Rightarrow> L\<lparr>errors := errors L @ [''Device config: '' @ msg]\<rparr>)"

definition group_step ::
  "(conf_group \<Rightarrow> string + string) \<Rightarrow> 'n connect_locals \<Rightarrow> conf_group \<Rightarrow> 'n connect_locals" where
  "group_step res L g =
     (case res g of
        Inr r \<Rightarrow> L\<lparr>hadAnyResponse := True\<rparr>
      | Inl msg \<Rightarrow> L\<lparr>errors := errors L @ [group_label g @ '': '' @ msg]\<rparr>)"

text \<open>The value a group read contributes to \<^verbatim>\<open>Promise.all\<close>: its body, or the empty text.\<close>

definition group_text :: "(conf_group \<Rightarrow> string + string) \<Rightarrow> conf_group \<Rightarrow> string" where
  "group_text res g = (case res g of Inr r \<Rightarrow> r | Inl msg \<Rightarrow> [])"

definition val_truthy :: "'n numeric \<Rightarrow> 'n jsval option \<Rightarrow> bool" where
  "val_truthy N v =
     (case v of None \<Rightarrow> False | Some (JNum n) \<Rightarrow> num_truthy N n | Some (JStr s) \<Rightarrow> s \<noteq> [])"

text \<open>\<^verbatim>\<open>a || b || d\<close> with a literal \<open>d\<close>.\<close>

definition first_truthy ::
  "'n numeric \<Rightarrow> 'n jsval option \<Rightarrow> 'n jsval option \<Rightarrow> string \<Rightarrow> 'n jsval" where
  "first_truthy N a b d =
     (if val_truthy N a then (case a of Some v \<Rightarrow> v | None \<Rightarrow> JStr d)
      else if val_truthy N b then (case b of Some v \<Rightarrow> v | None \<Rightarrow> JStr d)
      else JStr d)"

record 'n device_info =
  model :: "'n jsval"
  serial :: "'n jsval"
  firmware :: "'n jsval"

definition info_of :: "'n numeric \<Rightarrow> 'n config \<Rightarrow> 'n device_info" where
  "info_of N i =
     \<lparr>model = first_truthy N (i ''device_model'') (i ''model'') ''PTZOptics Move SE'',
      serial = first_truthy N (i ''serial_number'') (i ''sn'') ''N/A'',
      firmware = first_truthy N (i ''firmware_version'') (i ''fw'') ''N/A''\<rparr>"

definition mock_info :: "'n device_info" where
  "mock_info = \<lparr>model = JStr ''Simulated PTZ'', serial = JStr ''SIM-001'',
                firmware = JStr ''v9.9.9-mock''\<rparr>"

text \<open>
  The handler. \<open>mockc\<close> is the simulator's current configuration, \<open>dev\<close> the
  settlement of the device-info read, \<open>res\<close> those of the three group reads and
  \<open>order\<close> the order in which they settle. (Nothing in the body throws, so the outer
  \<^verbatim>\<open>catch\<close> of the source is never entered.)
\<close>

definition camera_connect ::
  "'n numeric \<Rightarrow> env \<Rightarrow> string \<Rightarrow> 'n config \<Rightarrow> string + string \<Rightarrow> conf_group list
     \<Rightarrow> (conf_group \<Rightarrow> string + string) \<Rightarrow> ('n device_info \<times> 'n config) reply" where
  "camera_connect N E ip mockc dev order res =
     (if ip = ''mock'' then Success (mock_info, mockc)
      else (let L = foldl (group_step res) (device_step N E dev connect_init) order in
            if hadAnyResponse L then
              Success (info_of N (c_info L),
                       parse N E (group_text res ImageConf)
                         ++ parse N E (group_text res ExposureConf)
                         ++ parse N E (group_text res FocusConf))
            else Failure (case errors L of
                            [] \<Rightarrow> ''Camera unreachable - check IP address and network connection''
                          | e # es \<Rightarrow>
                              (if e = []
                               then ''Camera unreachable - check IP address and network connection''
                               else e))))"

section \<open>Discovery\<close>

text \<open>
  \<^verbatim>\<open>camera:discover\<close> registers a handler for the socket's messages, one for its
  errors, and a timer of three seconds that is never cleared. An execution is the
  sequence of the events that reach these handlers. The state records the addresses
  found, whether the socket is still open, how often \<^verbatim>\<open>client.close()\<close> was called,
  how often it was called on a socket already closed (where Node throws
  \<^verbatim>\<open>ERR_SOCKET_DGRAM_NOT_RUNNING\<close>, which ends the handler) and the value the
  promise resolved with.
\<close>

datatype sock_event = Message string | SocketError | WindowExpired

record dstate =
  found :: "string list"
  socket_open :: bool
  close_calls :: nat
  closes_on_closed :: nat
  resolved :: "string list option"

definition discover_init :: dstate where
  "discover_init =
     \<lparr>found = [], socket_open = True, close_calls = 0, closes_on_closed = 0, resolved = None\<rparr>"

text \<open>\<^verbatim>\<open>resolve(found)\<close>: the first call settles the promise.\<close>

definition resolve_found :: "dstate \<Rightarrow> dstate" where
  "resolve_found d = (case resolved d of None \<Rightarrow> d\<lparr>resolved := Some (found d)\<rparr> | Some r \<Rightarrow> d)"

text \<open>\<^verbatim>\<open>client.close(); resolve(found);\<close>, the body of both the error handler and the timer.\<close>

definition close_and_resolve :: "dstate \<Rightarrow> dstate" where
  "close_and_resolve d =
     (if socket_open d
      then resolve_found (d\<lparr>socket_open := False, close_calls := close_calls d + 1\<rparr>)
      else d\<lparr>close_calls := close_calls d + 1, closes_on_closed := closes_on_closed d + 1\<rparr>)"

definition discover_step :: "dstate \<Rightarrow> sock_event \<Rightarrow> dstate" where
  "discover_step d ev =
     (case ev of
        Message address \<Rightarrow> (if address \<in> set (found d) then d else d\<lparr>found := found d @ [address]\<rparr>)
      | SocketError \<Rightarrow> close_and_resolve d
      | WindowExpired \<Rightarrow> close_and_resolve d)"

definition discover_run :: "sock_event list \<Rightarrow> dstate" where
  "discover_run evs = foldl discover_step discover_init evs"

section \<open>Notions for the statements\<close>

text \<open>
  The definitions of this section are not part of the program: they name what the
  theorems speak about.
\<close>

subsection \<open>The Digest header as a list of fields\<close>

text \<open>
  To say which fields the header carries, the header is read as a list of fields, each
  a name and its rendered value; \<open>digest_header_render\<close> below shows that the text
  built by \<open>buildDigestAuth\<close> is this list, rendered. \<open>qop_offered\<close> is the test
  the source makes before it adds the fields of the qop: the challenge has a non-empty
  qop whose first comma-separated entry, trimmed, is not empty.
\<close>

definition quoted :: "string \<Rightarrow> string" where
  \<open>quoted v = ''"'' @ v @ ''"''\<close>

definition digest_field_list ::
  "env \<Rightarrow> string \<Rightarrow> string \<Rightarrow> string \<Rightarrow> string \<Rightarrow> string \<Rightarrow> challenge \<Rightarrow> (string \<times> string) list" where
  "digest_field_list E cnonce mth uri usr pwd ch =
     [(''username'', quoted usr), (''realm'', quoted (js_str (ch ''realm''))),
      (''nonce'', quoted (js_str (ch ''nonce''))), (''uri'', quoted uri),
      (''algorithm'', digest_algo E ch),
      (''response'', quoted (digest_response E cnonce mth uri usr pwd ch))]
     @ (if truthy (digest_qop E ch)
        then [(''qop'', js_str (digest_qop E ch)), (''nc'', digest_nc), (''cnonce'', quoted cnonce)]
        else [])
     @ (if truthy (ch ''opaque'') then [(''opaque'', quoted (js_str (ch ''opaque'')))] else [])"

fun join_fields :: "(string \<times> string) list \<Rightarrow> string" where
  "join_fields [] = []"
| "join_fields [(k, v)] = k @ ''='' @ v"
| "join_fields ((k, v) # f # fs) = k @ ''='' @ v @ '', '' @ join_fields (f # fs)"

definition render_digest :: "(string \<times> string) list \<Rightarrow> string" where
  "render_digest fs = ''Digest '' @ join_fields fs"

definition qop_offered :: "env \<Rightarrow> challenge \<Rightarrow> bool" where
  "qop_offered E ch =
     (case ch ''qop'' of None \<Rightarrow> False
      | Some q \<Rightarrow> (if q = [] then False else trim E (split_first (CHR '','') q) \<noteq> []))"

subsection \<open>Outcomes of requests\<close>

text \<open>
  What the network made of a request: a response with status 401, a response with
  another status, the callback that an outcome leads to when it ends the operation, and
  the scheme that the source detects in the outcome of an unauthenticated request (none
  unless it is a 401 response with a recognised scheme). \<open>same_target\<close> says that
  logged requests are GET requests of one URL with one timeout.
\<close>

definition is_401 :: "outcome \<Rightarrow> bool" where
  "is_401 oc = (case oc of Responded res \<Rightarrow> statusCode res = 401 | Errored e \<Rightarrow> False | TimedOut \<Rightarrow> False)"

definition accepted :: "outcome \<Rightarrow> bool" where
  "accepted oc = (case oc of Responded res \<Rightarrow> (if statusCode res = 401 then False else True) | Errored e \<Rightarrow> False | TimedOut \<Rightarrow> False)"

definition callback_of :: "outcome \<Rightarrow> js_error + response" where
  "callback_of oc = (case oc of Responded res \<Rightarrow> Inr res | Errored e \<Rightarrow> Inl e | TimedOut \<Rightarrow> Inl timeout_error)"

definition challenge_of :: "env \<Rightarrow> outcome \<Rightarrow> (scheme \<times> challenge \<times> string option) option" where
  "challenge_of E oc =
     (case oc of
        Responded res \<Rightarrow> (if statusCode res = 401 then detect_scheme E res else None)
      | Errored e \<Rightarrow> None
      | TimedOut \<Rightarrow> None)"

definition same_target :: "string \<Rightarrow> string \<Rightarrow> nat \<Rightarrow> (request \<times> outcome) list \<Rightarrow> bool" where
  "same_target ip urlPath tmo entries =
     list_all (\<lambda>(rq, oc). rq_method rq = GET \<and> rq_url rq = ''http://'' @ ip @ urlPath
                          \<and> rq_timeout rq = tmo) entries"

subsection \<open>Hexadecimal texts, bodies, settled reads\<close>

text \<open>
  Reading a text of lowercase hexadecimal digits back as a number; the two tests that
  the operations make on a body; the four reads of Connect all rejected; what a group
  read contributes to the configuration; the device information made of defaults only.
\<close>

definition digit_value :: "char \<Rightarrow> nat" where
  "digit_value c =
     (case map_of (zip ''0123456789abcdef'' [0, 1, 2, 3, 4, 5, 6, 7, 8, 9, 10, 11, 12, 13, 14, 15]) c of
        None \<Rightarrow> 0 | Some d \<Rightarrow> d)"


definition looks_like_html :: "string \<Rightarrow> bool" where
  "looks_like_html txt = (str_includes txt ''<!DOCTYPE'' \<or> str_includes txt ''<html'')"

definition mentions_401 :: "string \<Rightarrow> bool" where
  "mentions_401 txt = (str_includes txt ''401'' \<or> str_includes txt ''Unauthorized'')"

definition all_failed :: "string + string \<Rightarrow> (conf_group \<Rightarrow> string + string) \<Rightarrow> bool" where
  "all_failed dev res =
     (isl dev \<and> isl (res ImageConf) \<and> isl (res ExposureConf) \<and> isl (res FocusConf))"

definition group_config :: "'n numeric \<Rightarrow> env \<Rightarrow> (conf_group \<Rightarrow> string + string) \<Rightarrow> conf_group \<Rightarrow> 'n config" where
  "group_config N E res g = (case res g of Inr r \<Rightarrow> parse N E r | Inl msg \<Rightarrow> Map.empty)"

definition default_info :: "'n device_info" where
  "default_info = \<lparr>model = JStr ''PTZOptics Move SE'', serial = JStr ''N/A'', firmware = JStr ''N/A''\<rparr>"

section \<open>Sample inputs\<close>

text \<open>
  To evaluate the model on concrete inputs, an environment in which the hash and base64
  functions are symbolic (the result shows the function applied and its argument), the
  case conversions and \<open>trim\<close> act on ASCII letters and ASCII whitespace (as the
  JavaScript methods do on ASCII text), and UTF-8 decoding is the identity (as it is on
  ASCII bytes). The network is a parameter.
\<close>

definition tagged :: "string \<Rightarrow> string \<Rightarrow> string" where
  "tagged f s = f @ ''('' @ s @ '')''"

definition ascii_upper :: "char \<Rightarrow> char" where
  "ascii_upper c =
     (case map_of (zip ''abcdefghijklmnopqrstuvwxyz'' ''ABCDEFGHIJKLMNOPQRSTUVWXYZ'') c of
        None \<Rightarrow> c | Some u \<Rightarrow> u)"

definition ascii_lower :: "char \<Rightarrow> char" where
  "ascii_lower c =
     (case map_of (zip ''ABCDEFGHIJKLMNOPQRSTUVWXYZ'' ''abcdefghijklmnopqrstuvwxyz'') c of
        None \<Rightarrow> c | Some l \<Rightarrow> l)"

definition ascii_space :: "char \<Rightarrow> bool" where
  "ascii_space c = (c \<in> set [CHR 0x09, CHR 0x0A, CHR 0x0B, CHR 0x0C, CHR 0x0D, CHR 0x20])"

definition ascii_trim :: "string \<Rightarrow> string" where
  "ascii_trim s = rev (dropWhile ascii_space (rev (dropWhile ascii_space s)))"

definition sample_env :: "(request list \<Rightarrow> request \<Rightarrow> outcome) \<Rightarrow> env" where
  "sample_env nw =
     \<lparr>md5 = tagged ''md5'', sha256 = tagged ''sha256'',
      toUpperCase = map ascii_upper, toLowerCase = map ascii_lower, trim = ascii_trim,
      base64 = tagged ''base64'', base64_text = tagged ''base64'',
      base64_decode = tagged ''base64_decode'', utf8 = (\<lambda>b. b),
      randomHex = (\<lambda>n. ''0123456789abcdef''), net = nw, mock_frame = ''<svg/>''\<rparr>"

text \<open>
  Sample networks: one on which nothing answers, and networks that answer the requests
  in the order of a script (a request beyond the script times out).
\<close>

definition silent_net :: "request list \<Rightarrow> request \<Rightarrow> outcome" where
  "silent_net history rq = TimedOut"

definition scripted :: "outcome list \<Rightarrow> request list \<Rightarrow> request \<Rightarrow> outcome" where
  "scripted script history rq =
     (if length history < length script then script ! length history else TimedOut)"

definition answer :: "nat \<Rightarrow> string option \<Rightarrow> string \<Rightarrow> outcome" where
  "answer st hdr b =
     Responded \<lparr>statusCode = st, www_authenticate = hdr, set_cookie = [], chunks = [b]\<rparr>"

definition accepting_net :: "request list \<Rightarrow> request \<Rightarrow> outcome" where
  "accepting_net = scripted [answer 200 None ''ok'']"

definition rejecting_net :: "request list \<Rightarrow> request \<Rightarrow> outcome" where
  \<open>rejecting_net =
     scripted [answer 401 None [], answer 401 (Some ''Basic realm="cam"'') [], answer 401 None []]\<close>

definition reopened_net :: "request list \<Rightarrow> request \<Rightarrow> outcome" where
  "reopened_net = scripted [answer 401 None [], answer 200 None ''ok'']"

definition digest_net :: "request list \<Rightarrow> request \<Rightarrow> outcome" where
  \<open>digest_net = scripted [answer 401 (Some ''Digest realm="x", nonce="y"'') [], answer 200 None ''ok'']\<close>

definition unauthorized_body_net :: "request list \<Rightarrow> request \<Rightarrow> outcome" where
  "unauthorized_body_net = scripted [answer 200 None ''401 Unauthorized'']"

definition error_page_net :: "request list \<Rightarrow> request \<Rightarrow> outcome" where
  \<open>error_page_net = scripted [answer 200 None ''<html><body>401 Unauthorized</body></html>'']\<close>

text \<open>
  A credential, a state with an empty cache, a state whose cache holds one entry for the
  host \<open>cam\<close>, and two such entries.
\<close>

definition admin :: credential where
  "admin = \<lparr>username = ''admin'', password = ''pw''\<rparr>"

definition empty_state :: tstate where
  "empty_state = \<lparr>authCache = Map.empty, log = []\<rparr>"

definition cached_state :: "cached_auth \<Rightarrow> tstate" where
  "cached_state e = \<lparr>authCache = [''cam'' \<mapsto> e], log = []\<rparr>"

definition basic_entry :: cached_auth where
  "basic_entry = \<lparr>ca_scheme = Basic, ca_challenge = Map.empty, ca_cookie = None\<rparr>"

definition authn_entry :: cached_auth where
  "authn_entry =
     \<lparr>ca_scheme = Authn, ca_challenge = [''nonce'' \<mapsto> ''n1''], ca_cookie = Some ''auth_tkt=abc''\<rparr>"

text \<open>
  A sample conversion of texts to numbers, which agrees with JavaScript on texts of
  decimal digits (the empty text is zero) and on texts that are no number at all, and
  sample settlements of the three group reads of Connect.
\<close>

definition digit_char :: "char \<Rightarrow> bool" where
  "digit_char c = (c \<in> set ''0123456789'')"

definition dec_value :: "string \<Rightarrow> int" where
  "dec_value v = foldl (\<lambda>acc c. 10 * acc + int (digit_value c)) 0 v"

definition sample_numeric :: "int numeric" where
  "sample_numeric =
     \<lparr>js_isNaN = (\<lambda>v. \<not> list_all digit_char v), js_Number = dec_value, num_truthy = (\<lambda>n. n \<noteq> 0)\<rparr>"

definition sample_reads :: "conf_group \<Rightarrow> string + string" where
  "sample_reads g =
     (case g of
        ImageConf \<Rightarrow> Inr (''bright=7'' @ [CHR 0x0D, CHR 0x0A] @ ''wb_mode = auto'' @ [CHR 0x0A])
      | ExposureConf \<Rightarrow> Inr ''gain=0''
      | FocusConf \<Rightarrow> Inl ''Request timed out'')"

definition failed_reads :: "conf_group \<Rightarrow> string + string" where
  "failed_reads g = Inl ''Request timed out''"

lemma sample_env_simps [simp]:
  "md5 (sample_env nw) = tagged ''md5''"
  "sha256 (sample_env nw) = tagged ''sha256''"
  "toUpperCase (sample_env nw) = map ascii_upper"
  "toLowerCase (sample_env nw) = map ascii_lower"
  "trim (sample_env nw) = ascii_trim"
  "base64 (sample_env nw) = tagged ''base64''"
  "base64_text (sample_env nw) = tagged ''base64''"
  "base64_decode (sample_env nw) = tagged ''base64_decode''"
  "utf8 (sample_env nw) = (\<lambda>b. b)"
  "randomHex (sample_env nw) = (\<lambda>n. ''0123456789abcdef'')"
  "net (sample_env nw) = nw"
  "mock_frame (sample_env nw) = ''<svg/>''"
  by (simp_all add: sample_env_def)

lemmas eval_transport =
  scripted_def answer_def cached_state_def basic_entry_def admin_def usable_def
  plain_request_def auth_request_def buildRetryHeaders_def buildBasicAuth_def
  is_401_def accepted_def callback_of_def challenge_of_def detect_scheme_def
  or_else_def ascii_lower_def tagged_def Let_def

lemmas eval_get =
  httpGet_def authGet_def authGetFresh_def http_request_def empty_state_def eval_transport

section \<open>The vendor scheme hashes with the method GET\<close>

text \<open>
  The header that \<open>httpPost\<close> sends for a cached vendor scheme is the one
  \<open>buildAuthnAuth\<close> builds.
\<close>

lemma post_request_authn:
  assumes "authCache s ip = Some c" "ca_scheme c = Authn" "usable auth = Some a"
  shows "map_of (rq_headers (post_request E s ip p t auth)) ''auth_tkt''
           = Some (snd (buildAuthnAuth E (randomHex E (length (log s))) p (username a) (password a)
                          (ca_challenge c)))"
  using assms
  by (simp add: post_request_def buildRetryHeaders_def assign_headers_def buildAuthnAuth_def Let_def)

text \<open>
  Claim C3. For every uri, user name, password and challenge, \<open>buildAuthnAuth\<close>
  computes HA2 as SHA-256 of \<^verbatim>\<open>GET:\<close> followed by the uri, whatever the method of the
  request: its response is SHA-256 of \<^verbatim>\<open>HA1:nonce:cnonce:HA2\<close>, where HA1 is SHA-256
  of \<^verbatim>\<open>username:realm:password\<close> and an absent realm counts as the empty string. The
  builder has no method parameter, and a POST request that reuses a cached vendor scheme
  carries exactly this header.
\<close>

theorem buildAuthnAuth_get_hardcoded:
  \<open>buildAuthnAuth E cnonce uri usr pwd ch =
     (''auth_tkt'',
      ''Authn username="'' @ usr @ ''", nonce="'' @ js_str (ch ''nonce'') @ ''", uri="'' @ uri
        @ ''", response="''
        @ sha256 E (sha256 E (usr @ '':'' @ (case ch ''realm'' of None \<Rightarrow> [] | Some r \<Rightarrow> r)
                                @ '':'' @ pwd)
                     @ '':'' @ js_str (ch ''nonce'') @ '':'' @ cnonce
                     @ '':'' @ sha256 E (''GET:'' @ uri))
        @ ''", cnonce="'' @ cnonce @ ''"'')
   \<and> (authCache s ip = Some c \<and> ca_scheme c = Authn \<and> usable auth = Some a \<longrightarrow>
        rq_method (post_request E s ip uri tmo auth) = POST
        \<and> map_of (rq_headers (post_request E s ip uri tmo auth)) ''auth_tkt''
            = Some (snd (buildAuthnAuth E (randomHex E (length (log s))) uri (username a)
                           (password a) (ca_challenge c))))\<close>
proof -
  have realm: "or_else (ch ''realm'') [] = (case ch ''realm'' of None \<Rightarrow> [] | Some r \<Rightarrow> r)"
    by (simp add: or_else_def split: option.splits)
  have builder: \<open>buildAuthnAuth E cnonce uri usr pwd ch =
     (''auth_tkt'',
      ''Authn username="'' @ usr @ ''", nonce="'' @ js_str (ch ''nonce'') @ ''", uri="'' @ uri
        @ ''", response="''
        @ sha256 E (sha256 E (usr @ '':'' @ (case ch ''realm'' of None \<Rightarrow> [] | Some r \<Rightarrow> r)
                                @ '':'' @ pwd)
                     @ '':'' @ js_str (ch ''nonce'') @ '':'' @ cnonce
                     @ '':'' @ sha256 E (''GET:'' @ uri))
        @ ''", cnonce="'' @ cnonce @ ''"'')\<close>
    by (simp add: buildAuthnAuth_def authn_response_def authn_ha1_def authn_ha2_def realm)
  have post: "rq_method (post_request E s ip uri tmo auth) = POST"
    by (simp add: post_request_def Let_def)
  from builder post post_request_authn show ?thesis
    by blast
qed

theorem buildAuthnAuth_get_hardcoded_witness:
  \<open>authCache (cached_state authn_entry) ''cam'' = Some authn_entry \<and> ca_scheme authn_entry = Authn
   \<and> usable (Some admin) = Some admin
   \<and> rq_method (post_request (sample_env silent_net) (cached_state authn_entry) ''cam''
                   ''/cgi-bin/param.cgi?post_reboot'' 4000 (Some admin)) = POST
   \<and> map_of (rq_headers (post_request (sample_env silent_net) (cached_state authn_entry) ''cam''
                   ''/cgi-bin/param.cgi?post_reboot'' 4000 (Some admin))) ''auth_tkt''
       = Some (''Authn username="admin", nonce="n1", uri="/cgi-bin/param.cgi?post_reboot", ''
               @ ''response="sha256(sha256(admin::pw):n1:0123456789abcdef:''
               @ ''sha256(GET:/cgi-bin/param.cgi?post_reboot))", cnonce="0123456789abcdef"'')\<close>
proof -
  have h: "authCache (cached_state authn_entry) ''cam'' = Some authn_entry
           \<and> ca_scheme authn_entry = Authn \<and> usable (Some admin) = Some admin"
    by (simp add: cached_state_def authn_entry_def usable_def admin_def)
  from h buildAuthnAuth_get_hardcoded [of "sample_env silent_net" "''0123456789abcdef''"
      "''/cgi-bin/param.cgi?post_reboot''" "''admin''" "''pw''" "[''nonce'' \<mapsto> ''n1'']"
      "cached_state authn_entry" "''cam''" authn_entry "Some admin" admin 4000]
  show ?thesis
    by (simp add: authn_entry_def admin_def cached_state_def js_str_def tagged_def)
qed

section \<open>The fields of the Digest header\<close>

lemma truthy_digest_qop: "truthy (digest_qop E ch) = qop_offered E ch"
  by (simp add: truthy_def digest_qop_def qop_offered_def split: option.splits)

lemma digest_header_render:
  "digest_header E cnonce mth uri usr pwd ch
     = render_digest (digest_field_list E cnonce mth uri usr pwd ch)"
  by (simp add: digest_header_def digest_header0_def digest_field_list_def render_digest_def
      quoted_def Let_def)

text \<open>
  Claim C7, as amended. For every method, uri, credential and challenge, the header
  built by \<open>buildDigestAuth\<close> carries the fields username, realm, nonce, uri, algorithm
  and response, then the fields qop, nc and cnonce if and only if the first
  comma-separated entry of the challenge's qop is non-empty after trimming, then the
  field opaque if and only if the challenge's opaque is a non-empty string.
\<close>

theorem buildDigestAuth_fields:
  "snd (buildDigestAuth E cnonce mth uri usr pwd ch)
     = render_digest (digest_field_list E cnonce mth uri usr pwd ch)
   \<and> map fst (digest_field_list E cnonce mth uri usr pwd ch)
       = [''username'', ''realm'', ''nonce'', ''uri'', ''algorithm'', ''response'']
         @ (if qop_offered E ch then [''qop'', ''nc'', ''cnonce''] else [])
         @ (if truthy (ch ''opaque'') then [''opaque''] else [])
   \<and> (''qop'' \<in> set (map fst (digest_field_list E cnonce mth uri usr pwd ch))) = qop_offered E ch
   \<and> (''nc'' \<in> set (map fst (digest_field_list E cnonce mth uri usr pwd ch))) = qop_offered E ch
   \<and> (''cnonce'' \<in> set (map fst (digest_field_list E cnonce mth uri usr pwd ch)))
       = qop_offered E ch
   \<and> (''opaque'' \<in> set (map fst (digest_field_list E cnonce mth uri usr pwd ch)))
       = truthy (ch ''opaque'')"
proof -
  have names: "map fst (digest_field_list E cnonce mth uri usr pwd ch)
       = [''username'', ''realm'', ''nonce'', ''uri'', ''algorithm'', ''response'']
         @ (if qop_offered E ch then [''qop'', ''nc'', ''cnonce''] else [])
         @ (if truthy (ch ''opaque'') then [''opaque''] else [])"
    by (simp add: digest_field_list_def truthy_digest_qop)
  have "snd (buildDigestAuth E cnonce mth uri usr pwd ch)
     = render_digest (digest_field_list E cnonce mth uri usr pwd ch)"
    by (simp add: buildDigestAuth_def digest_header_render)
  then show ?thesis
    by (simp add: names)
qed

theorem buildDigestAuth_fields_witness:
  \<open>snd (buildDigestAuth (sample_env silent_net) ''c0'' ''GET'' ''/x'' ''admin'' ''pw''
          [''realm'' \<mapsto> ''cam'', ''nonce'' \<mapsto> ''n1'', ''qop'' \<mapsto> ''auth, auth-int'', ''opaque'' \<mapsto> ''o1''])
     = ''Digest username="admin", realm="cam", nonce="n1", uri="/x", algorithm=MD5, ''
       @ ''response="md5(md5(admin:cam:pw):n1:00000001:c0:auth:md5(GET:/x))", ''
       @ ''qop=auth, nc=00000001, cnonce="c0", opaque="o1"''\<close>
  using buildDigestAuth_fields [of "sample_env silent_net" "''c0''" "''GET''" "''/x''" "''admin''" "''pw''"
      "[''realm'' \<mapsto> ''cam'', ''nonce'' \<mapsto> ''n1'', ''qop'' \<mapsto> ''auth, auth-int'', ''opaque'' \<mapsto> ''o1'']"]
  by (simp add: render_digest_def digest_field_list_def quoted_def digest_response_def digest_qop_def
      digest_ha1_def digest_ha2_def digest_hash_def digest_algo_def digest_nc_def truthy_def js_str_def
      or_else_def split_first_def ascii_trim_def ascii_space_def ascii_upper_def tagged_def)

text \<open>
  The claim as first stated (the qop fields are present whenever the challenge carries a
  qop parameter, the opaque field whenever it supplied an opaque value) fails for a
  challenge whose qop is \<^verbatim>\<open>,auth\<close> and whose opaque is empty: the header ends with
  the response.
\<close>

theorem qop_carried_but_not_emitted:
  \<open>[''realm'' \<mapsto> ''cam'', ''nonce'' \<mapsto> ''n1'', ''qop'' \<mapsto> '',auth'', ''opaque'' \<mapsto> ''''] ''qop'' = Some '',auth''
   \<and> [''realm'' \<mapsto> ''cam'', ''nonce'' \<mapsto> ''n1'', ''qop'' \<mapsto> '',auth'', ''opaque'' \<mapsto> ''''] ''opaque'' = Some ''''
   \<and> snd (buildDigestAuth (sample_env silent_net) ''c0'' ''GET'' ''/x'' ''admin'' ''pw''
          [''realm'' \<mapsto> ''cam'', ''nonce'' \<mapsto> ''n1'', ''qop'' \<mapsto> '',auth'', ''opaque'' \<mapsto> ''''])
     = ''Digest username="admin", realm="cam", nonce="n1", uri="/x", algorithm=MD5, ''
       @ ''response="md5(md5(admin:cam:pw):n1:md5(GET:/x))"''\<close>
  by (simp add: buildDigestAuth_def digest_header_def digest_header0_def digest_response_def digest_qop_def
      digest_ha1_def digest_ha2_def digest_hash_def digest_algo_def truthy_def js_str_def or_else_def
      split_first_def ascii_trim_def ascii_upper_def tagged_def Let_def)

section \<open>Session variants of the Digest algorithm\<close>

text \<open>
  Claim C8, as amended. The algorithm is the challenge's, \<^verbatim>\<open>MD5\<close> when it is absent
  or empty, in upper case; the hash function is SHA-256 when the algorithm starts with
  \<^verbatim>\<open>SHA-256\<close> and MD5 otherwise. HA1 is re-hashed as
  \<^verbatim>\<open>hash(HA1:nonce:cnonce)\<close> exactly when the algorithm is \<^verbatim>\<open>MD5-SESS\<close> or
  \<^verbatim>\<open>SHA-256-SESS\<close>; for every other algorithm, also one that ends in
  \<^verbatim>\<open>-SESS\<close>, HA1 is the hash of \<^verbatim>\<open>username:realm:password\<close>. The response is
  computed from this HA1.
\<close>

theorem digest_sess_rehash:
  "digest_algo E ch = toUpperCase E (case ch ''algorithm'' of None \<Rightarrow> ''MD5'' | Some a \<Rightarrow> if a = [] then ''MD5'' else a)
   \<and> digest_hash E ch = (if prefix ''SHA-256'' (digest_algo E ch) then sha256 E else md5 E)
   \<and> (digest_algo E ch = ''MD5-SESS'' \<longrightarrow>
        digest_ha1 E cnonce usr pwd ch
          = md5 E (md5 E (usr @ '':'' @ js_str (ch ''realm'') @ '':'' @ pwd)
                     @ '':'' @ js_str (ch ''nonce'') @ '':'' @ cnonce))
   \<and> (digest_algo E ch = ''SHA-256-SESS'' \<longrightarrow>
        digest_ha1 E cnonce usr pwd ch
          = sha256 E (sha256 E (usr @ '':'' @ js_str (ch ''realm'') @ '':'' @ pwd)
                        @ '':'' @ js_str (ch ''nonce'') @ '':'' @ cnonce))
   \<and> (digest_algo E ch \<noteq> ''MD5-SESS'' \<and> digest_algo E ch \<noteq> ''SHA-256-SESS'' \<longrightarrow>
        digest_ha1 E cnonce usr pwd ch
          = digest_hash E ch (usr @ '':'' @ js_str (ch ''realm'') @ '':'' @ pwd))
   \<and> digest_response E cnonce mth uri usr pwd ch
       = digest_hash E ch
           (digest_ha1 E cnonce usr pwd ch @ '':'' @ js_str (ch ''nonce'') @ '':''
              @ (if qop_offered E ch
                 then digest_nc @ '':'' @ cnonce @ '':'' @ js_str (digest_qop E ch) @ '':''
                 else [])
              @ digest_hash E ch (mth @ '':'' @ uri))"
  by (auto simp: digest_algo_def digest_hash_def digest_ha1_def digest_response_def digest_ha2_def
      or_else_def truthy_digest_qop Let_def split: option.splits)

theorem digest_sess_rehash_witness:
  "digest_algo (sample_env silent_net) [''realm'' \<mapsto> ''cam'', ''nonce'' \<mapsto> ''n1'', ''algorithm'' \<mapsto> ''md5-sess'']
     = ''MD5-SESS''
   \<and> digest_ha1 (sample_env silent_net) ''c0'' ''admin'' ''pw''
         [''realm'' \<mapsto> ''cam'', ''nonce'' \<mapsto> ''n1'', ''algorithm'' \<mapsto> ''md5-sess'']
     = ''md5(md5(admin:cam:pw):n1:c0)''
   \<and> digest_response (sample_env silent_net) ''c0'' ''GET'' ''/x'' ''admin'' ''pw''
         [''realm'' \<mapsto> ''cam'', ''nonce'' \<mapsto> ''n1'', ''algorithm'' \<mapsto> ''md5-sess'']
     = ''md5(md5(md5(admin:cam:pw):n1:c0):n1:md5(GET:/x))''"
proof -
  have a: "digest_algo (sample_env silent_net)
             [''realm'' \<mapsto> ''cam'', ''nonce'' \<mapsto> ''n1'', ''algorithm'' \<mapsto> ''md5-sess''] = ''MD5-SESS''"
    by (simp add: digest_algo_def or_else_def ascii_upper_def)
  have q: "\<not> qop_offered (sample_env silent_net)
             [''realm'' \<mapsto> ''cam'', ''nonce'' \<mapsto> ''n1'', ''algorithm'' \<mapsto> ''md5-sess'']"
    by (simp add: qop_offered_def)
  from a q digest_sess_rehash [of "sample_env silent_net"
      "[''realm'' \<mapsto> ''cam'', ''nonce'' \<mapsto> ''n1'', ''algorithm'' \<mapsto> ''md5-sess'']"
      "''c0''" "''admin''" "''pw''" "''GET''" "''/x''"]
  show ?thesis
    by (simp add: js_str_def tagged_def)
qed

text \<open>
  The claim as first stated (every algorithm that ends in \<^verbatim>\<open>-SESS\<close> is re-hashed)
  fails for the algorithm \<^verbatim>\<open>SHA-512-256-SESS\<close>: HA1 is the plain MD5 hash.
\<close>

theorem sess_suffix_without_rehash:
  "suffix ''-SESS''
     (digest_algo (sample_env silent_net)
        [''realm'' \<mapsto> ''cam'', ''nonce'' \<mapsto> ''n1'', ''algorithm'' \<mapsto> ''SHA-512-256-SESS''])
   \<and> digest_ha1 (sample_env silent_net) ''c0'' ''admin'' ''pw''
         [''realm'' \<mapsto> ''cam'', ''nonce'' \<mapsto> ''n1'', ''algorithm'' \<mapsto> ''SHA-512-256-SESS'']
       = md5 (sample_env silent_net) ''admin:cam:pw''
   \<and> digest_ha1 (sample_env silent_net) ''c0'' ''admin'' ''pw''
         [''realm'' \<mapsto> ''cam'', ''nonce'' \<mapsto> ''n1'', ''algorithm'' \<mapsto> ''SHA-512-256-SESS'']
       \<noteq> md5 (sample_env silent_net) (md5 (sample_env silent_net) ''admin:cam:pw'' @ '':n1:c0'')
   \<and> digest_response (sample_env silent_net) ''c0'' ''GET'' ''/x'' ''admin'' ''pw''
         [''realm'' \<mapsto> ''cam'', ''nonce'' \<mapsto> ''n1'', ''algorithm'' \<mapsto> ''SHA-512-256-SESS'']
       = ''md5(md5(admin:cam:pw):n1:md5(GET:/x))''"
  by (simp add: digest_algo_def digest_ha1_def digest_hash_def digest_response_def digest_ha2_def
      digest_qop_def truthy_def or_else_def js_str_def ascii_upper_def tagged_def suffix_def Let_def)

section \<open>Requests and cache writes of the transport\<close>

subsection \<open>The steps of \<open>authGetFresh\<close> and \<open>authGet\<close>\<close>

lemma authGetFresh_no_credential:
  assumes "usable auth = None"
  shows "authGetFresh E ip p t auth s
           = (callback_of (net E (map fst (log s)) (plain_request ip p t)),
              s\<lparr>log := log s @ [(plain_request ip p t, net E (map fst (log s)) (plain_request ip p t))]\<rparr>)"
  using assms
  by (auto simp: authGetFresh_def http_request_def Let_def callback_of_def split: outcome.splits)

lemma authGetFresh_no_challenge:
  assumes "usable auth = Some a" "challenge_of E (net E (map fst (log s)) (plain_request ip p t)) = None"
  shows "authGetFresh E ip p t auth s
           = (if is_401 (net E (map fst (log s)) (plain_request ip p t)) then Inl unknown_scheme_error
              else callback_of (net E (map fst (log s)) (plain_request ip p t)),
              s\<lparr>log := log s @ [(plain_request ip p t, net E (map fst (log s)) (plain_request ip p t))]\<rparr>)"
  using assms
  by (auto simp: authGetFresh_def http_request_def Let_def callback_of_def challenge_of_def is_401_def
      split: outcome.splits if_splits)

lemma authGetFresh_challenge:
  assumes "usable auth = Some a"
    and "challenge_of E (net E (map fst (log s)) (plain_request ip p t)) = Some (sch, ch, ck)"
    and "s1 = s\<lparr>log := log s @ [(plain_request ip p t, net E (map fst (log s)) (plain_request ip p t))]\<rparr>"
    and "rq2 = auth_request E s1 ip p t a sch ch ck"
    and "o2 = net E (map fst (log s1)) rq2"
  shows "authGetFresh E ip p t auth s
           = (if is_401 o2 then Inl auth_rejected_error else callback_of o2,
              s1\<lparr>log := log s1 @ [(rq2, o2)],
                 authCache := (if accepted o2
                               then (authCache s)(ip \<mapsto> \<lparr>ca_scheme = sch, ca_challenge = ch, ca_cookie = ck\<rparr>)
                               else authCache s)\<rparr>)"
  using assms
  by (auto simp: authGetFresh_def http_request_def Let_def callback_of_def challenge_of_def is_401_def
      accepted_def split: outcome.splits if_splits)

lemma authGet_uncached:
  assumes "authCache s ip = None \<or> usable auth = None"
  shows "authGet E ip p t auth s = authGetFresh E ip p t auth s"
  using assms by (auto simp: authGet_def split: option.splits)

lemma authGet_cached:
  assumes "authCache s ip = Some c" "usable auth = Some a"
    and "rqc = auth_request E s ip p t a (ca_scheme c) (ca_challenge c) (ca_cookie c)"
    and "oc = net E (map fst (log s)) rqc"
    and "s1 = s\<lparr>log := log s @ [(rqc, oc)]\<rparr>"
  shows "authGet E ip p t auth s
           = (if is_401 oc then authGetFresh E ip p t auth (s1\<lparr>authCache := (authCache s)(ip := None)\<rparr>)
              else (callback_of oc, s1))"
  using assms
  by (auto simp: authGet_def http_request_def Let_def callback_of_def is_401_def
      split: outcome.splits if_splits)

text \<open>
  Every request that \<open>authGet\<close> issues is a GET of the same URL with the same
  timeout, and there are between one and three of them.
\<close>

lemma authGetFresh_log:
  assumes "authGetFresh E ip p t auth s = (r, s')"
  shows "\<exists>new. log s' = log s @ new \<and> new \<noteq> [] \<and> length new \<le> 2 \<and> same_target ip p t new"
  using assms
  by (auto simp: authGetFresh_def http_request_def Let_def same_target_def plain_request_def
      auth_request_def split: outcome.splits option.splits if_splits prod.splits)




text \<open>
  What one \<open>authGetFresh\<close> does to the cache, and that \<open>httpPost\<close> does
  nothing to it.
\<close>

lemma authGetFresh_cache:
  assumes "authGetFresh E ip p t auth s = (r, s')"
  shows "authCache s' = authCache s
         \<or> (\<exists>res1 rq2 res2 sch ch ck.
               log s' = log s @ [(plain_request ip p t, Responded res1), (rq2, Responded res2)]
               \<and> statusCode res1 = 401 \<and> detect_scheme E res1 = Some (sch, ch, ck)
               \<and> usable auth \<noteq> None
               \<and> rq_headers rq2 \<noteq> [(''Connection'', ''close'')]
               \<and> statusCode res2 \<noteq> 401 \<and> r = Inr res2
               \<and> authCache s' = (authCache s)(ip \<mapsto> \<lparr>ca_scheme = sch, ca_challenge = ch, ca_cookie = ck\<rparr>))"
  using assms
  by (auto simp: authGetFresh_def http_request_def Let_def auth_request_def buildRetryHeaders_def
      buildDigestAuth_def buildAuthnAuth_def buildBasicAuth_def
      split: outcome.splits option.splits if_splits prod.splits scheme.splits)

lemma authGetFresh_quiet:
  assumes "authGetFresh E ip p t auth s = (r, s')"
    and "list_all (\<lambda>(rq, oc). \<not> is_401 oc) (drop (length (log s)) (log s'))"
  shows "authCache s' = authCache s"
  using assms
  by (auto simp: authGetFresh_def http_request_def Let_def is_401_def
      split: outcome.splits option.splits if_splits prod.splits)

lemma httpPost_cache:
  "authCache (snd (httpPost E ip p t auth s)) = authCache s
   \<and> length (log (snd (httpPost E ip p t auth s))) = Suc (length (log s))"
  by (simp add: httpPost_def http_request_def Let_def split: outcome.splits)

text \<open>
  A host that challenges the first request with a Digest header and accepts the retry:
  the operation succeeds and the cache then holds the Digest scheme with the parsed
  challenge.
\<close>

lemma digest_negotiation_example:
  "fst (authGet (sample_env digest_net) ''cam'' ''/x'' 4000 (Some admin) empty_state)
     = Inr \<lparr>statusCode = 200, www_authenticate = None, set_cookie = [], chunks = [''ok'']\<rparr>
   \<and> map_option ca_scheme
        (authCache (snd (authGet (sample_env digest_net) ''cam'' ''/x'' 4000 (Some admin) empty_state))
           ''cam'') = Some Digest
   \<and> map_option (\<lambda>e. (ca_challenge e ''realm'', ca_challenge e ''nonce'', ca_challenge e ''qop''))
        (authCache (snd (authGet (sample_env digest_net) ''cam'' ''/x'' 4000 (Some admin) empty_state))
           ''cam'') = Some (Some ''x'', Some ''y'', None)"
  by (simp add: digest_net_def empty_state_def authGet_def authGetFresh_def http_request_def
      eval_transport parseAuthParams_def match_here_def match_value_def match_bare_def word_char_def
      space_char_def obj_set_def)

subsection \<open>A stale cache entry\<close>

text \<open>
  Claim C1, as amended. For every GET request issued with a credential to a host that
  has a cached entry, if the cached-auth attempt returns 401 the transport deletes the
  host's entry and runs the fresh negotiation once: one unauthenticated request, followed
  by one authenticated retry exactly when that request is answered 401 with a scheme the
  source recognises. Without such a challenge the outcome of the unauthenticated request
  ends the operation (an unknown-scheme error when it is a 401) and the cache holds no
  entry for the host. With it, a 401 on the retry is final and reported as the
  authentication-rejected error; afterwards the cache holds the freshly negotiated entry
  when the retry returned another status, and no entry for the host otherwise.
\<close>

theorem stale_cache_renegotiation:
  assumes cached: "authCache s ip = Some c"
    and cred: "usable auth = Some a"
    and rqc: "rqc = auth_request E s ip p t a (ca_scheme c) (ca_challenge c) (ca_cookie c)"
    and stale: "is_401 (net E (map fst (log s)) rqc)"
    and run: "authGet E ip p t auth s = (r, s')"
  shows "\<exists>oc o1. oc = net E (map fst (log s)) rqc
           \<and> o1 = net E (map fst (log s) @ [rqc]) (plain_request ip p t)
           \<and> (case challenge_of E o1 of
                None \<Rightarrow>
                  log s' = log s @ [(rqc, oc), (plain_request ip p t, o1)]
                  \<and> authCache s' = (authCache s)(ip := None)
                  \<and> r = (if is_401 o1 then Inl unknown_scheme_error else callback_of o1)
              | Some (sch, ch, ck) \<Rightarrow>
                  (\<exists>rq2 o2.
                     log s' = log s @ [(rqc, oc), (plain_request ip p t, o1), (rq2, o2)]
                     \<and> rq2 = auth_request E (s\<lparr>log := log s @ [(rqc, oc), (plain_request ip p t, o1)]\<rparr>)
                               ip p t a sch ch ck
                     \<and> o2 = net E (map fst (log s) @ [rqc, plain_request ip p t]) rq2
                     \<and> r = (if is_401 o2 then Inl auth_rejected_error else callback_of o2)
                     \<and> authCache s' =
                         (if accepted o2
                          then (authCache s)(ip \<mapsto> \<lparr>ca_scheme = sch, ca_challenge = ch, ca_cookie = ck\<rparr>)
                          else (authCache s)(ip := None))))"
proof -
  define oc where "oc = net E (map fst (log s)) rqc"
  define s1 where "s1 = s\<lparr>log := log s @ [(rqc, oc)], authCache := (authCache s)(ip := None)\<rparr>"
  define o1 where "o1 = net E (map fst (log s) @ [rqc]) (plain_request ip p t)"
  have o1: "o1 = net E (map fst (log s1)) (plain_request ip p t)"
    by (simp add: o1_def s1_def)
  have fresh: "authGetFresh E ip p t auth s1 = (r, s')"
    using authGet_cached [OF cached cred rqc oc_def refl] stale run
    by (simp add: oc_def s1_def)
  show ?thesis
  proof (cases "challenge_of E o1")
    case None
    with authGetFresh_no_challenge [OF cred, of E s1 ip p t] fresh o1
    have "r = (if is_401 o1 then Inl unknown_scheme_error else callback_of o1)"
      and "s' = s1\<lparr>log := log s1 @ [(plain_request ip p t, o1)]\<rparr>"
      by auto
    with None show ?thesis
      by (simp add: s1_def oc_def o1_def)
  next
    case (Some triple)
    obtain sch ch ck where triple: "triple = (sch, ch, ck)"
      by (cases triple) auto
    define s2 where "s2 = s1\<lparr>log := log s1 @ [(plain_request ip p t, o1)]\<rparr>"
    define rq2 where "rq2 = auth_request E s2 ip p t a sch ch ck"
    define o2 where "o2 = net E (map fst (log s2)) rq2"
    have ch: "challenge_of E (net E (map fst (log s1)) (plain_request ip p t)) = Some (sch, ch, ck)"
      using Some triple o1 by simp
    have s2: "s2 = s1\<lparr>log := log s1 @ [(plain_request ip p t, net E (map fst (log s1)) (plain_request ip p t))]\<rparr>"
      using o1 by (simp add: s2_def)
    from authGetFresh_challenge [OF cred ch s2 rq2_def o2_def] fresh
    have r: "r = (if is_401 o2 then Inl auth_rejected_error else callback_of o2)"
      and s': "s' = s2\<lparr>log := log s2 @ [(rq2, o2)],
                 authCache := (if accepted o2
                               then (authCache s1)(ip \<mapsto> \<lparr>ca_scheme = sch, ca_challenge = ch, ca_cookie = ck\<rparr>)
                               else authCache s1)\<rparr>"
      by auto
    have rq2': "rq2 = auth_request E (s\<lparr>log := log s @ [(rqc, oc), (plain_request ip p t, o1)]\<rparr>) ip p t a sch ch ck"
      by (simp add: rq2_def s2_def s1_def auth_request_def)
    have "log s' = log s @ [(rqc, oc), (plain_request ip p t, o1), (rq2, o2)]"
      by (simp add: s' s2_def s1_def)
    moreover have "o2 = net E (map fst (log s) @ [rqc, plain_request ip p t]) rq2"
      by (simp add: o2_def s2_def s1_def)
    moreover have "authCache s' =
                         (if accepted o2
                          then (authCache s)(ip \<mapsto> \<lparr>ca_scheme = sch, ca_challenge = ch, ca_cookie = ck\<rparr>)
                          else (authCache s)(ip := None))"
      by (simp add: s' s2_def s1_def)
    ultimately show ?thesis
      using Some triple r rq2' by (simp add: oc_def o1_def)
  qed
qed

theorem stale_cache_renegotiation_witness:
  "authCache (cached_state basic_entry) ''cam'' = Some basic_entry
   \<and> usable (Some admin) = Some admin
   \<and> is_401 (net (sample_env rejecting_net) (map fst (log (cached_state basic_entry)))
               (auth_request (sample_env rejecting_net) (cached_state basic_entry) ''cam'' ''/x'' 4000
                  admin Basic Map.empty None))
   \<and> fst (authGet (sample_env rejecting_net) ''cam'' ''/x'' 4000 (Some admin) (cached_state basic_entry))
       = Inl auth_rejected_error
   \<and> authCache (snd (authGet (sample_env rejecting_net) ''cam'' ''/x'' 4000 (Some admin)
                        (cached_state basic_entry))) ''cam'' = None
   \<and> map (\<lambda>(rq, oc). (rq_headers rq, is_401 oc))
        (log (snd (authGet (sample_env rejecting_net) ''cam'' ''/x'' 4000 (Some admin)
                     (cached_state basic_entry))))
       = [([(''Connection'', ''close''), (''Authorization'', ''Basic base64(admin:pw)'')], True),
          ([(''Connection'', ''close'')], True),
          ([(''Connection'', ''close''), (''Authorization'', ''Basic base64(admin:pw)'')], True)]"
proof -
  have h1: "authCache (cached_state basic_entry) ''cam'' = Some basic_entry"
    by (simp add: cached_state_def)
  have h2: "usable (Some admin) = Some admin"
    by (simp add: usable_def admin_def)
  have h3: "is_401 (net (sample_env rejecting_net) (map fst (log (cached_state basic_entry)))
               (auth_request (sample_env rejecting_net) (cached_state basic_entry) ''cam'' ''/x'' 4000
                  admin (ca_scheme basic_entry) (ca_challenge basic_entry) (ca_cookie basic_entry)))"
    by (simp add: rejecting_net_def eval_transport)
  from stale_cache_renegotiation [OF h1 h2 refl h3 prod.collapse [symmetric]] h1 h2 h3
  show ?thesis
    by (simp add: rejecting_net_def eval_transport)
qed

text \<open>
  The claim as first stated (the cached 401 is always followed by one unauthenticated
  request and one authenticated retry) fails when the host answers the unauthenticated
  request with 200: two requests are issued, and the second response is returned.
\<close>

theorem stale_cache_without_retry:
  "authCache (cached_state basic_entry) ''cam'' = Some basic_entry
   \<and> usable (Some admin) = Some admin
   \<and> fst (authGet (sample_env reopened_net) ''cam'' ''/x'' 4000 (Some admin) (cached_state basic_entry))
       = Inr \<lparr>statusCode = 200, www_authenticate = None, set_cookie = [], chunks = [''ok'']\<rparr>
   \<and> map (\<lambda>(rq, oc). (rq_headers rq, is_401 oc))
        (log (snd (authGet (sample_env reopened_net) ''cam'' ''/x'' 4000 (Some admin)
                     (cached_state basic_entry))))
       = [([(''Connection'', ''close''), (''Authorization'', ''Basic base64(admin:pw)'')], True),
          ([(''Connection'', ''close'')], False)]"
  by (simp add: reopened_net_def authGet_def authGetFresh_def http_request_def eval_transport)

subsection \<open>Writes of the cache\<close>

text \<open>
  Claim C10. One \<open>authGet\<close> leaves the cache as it was, or deletes the host's entry
  after the cached-auth attempt received 401, or stores the entry negotiated from a 401
  challenge after the authenticated retry returned a status other than 401 (which is then
  the response returned). A run in which no response was a 401 does not change the cache;
  neither does a run served by the cached scheme; and \<open>httpPost\<close> never changes it.
\<close>

theorem authCache_write_discipline:
  assumes run: "authGet E ip p t auth s = (r, s')"
  shows "(authCache s' = authCache s
          \<or> (\<exists>c a rqc res0 rest.
                authCache s ip = Some c \<and> usable auth = Some a
                \<and> rqc = auth_request E s ip p t a (ca_scheme c) (ca_challenge c) (ca_cookie c)
                \<and> log s' = log s @ (rqc, Responded res0) # rest \<and> statusCode res0 = 401
                \<and> authCache s' = (authCache s)(ip := None))
          \<or> (\<exists>pre res1 rq2 res2 sch ch ck.
                log s' = log s @ pre @ [(plain_request ip p t, Responded res1), (rq2, Responded res2)]
                \<and> statusCode res1 = 401 \<and> detect_scheme E res1 = Some (sch, ch, ck)
                \<and> usable auth \<noteq> None
                \<and> rq_headers rq2 \<noteq> [(''Connection'', ''close'')]
                \<and> statusCode res2 \<noteq> 401 \<and> r = Inr res2
                \<and> authCache s' = (authCache s)(ip \<mapsto> \<lparr>ca_scheme = sch, ca_challenge = ch, ca_cookie = ck\<rparr>)))
         \<and> (list_all (\<lambda>(rq, oc). \<not> is_401 oc) (drop (length (log s)) (log s'))
              \<longrightarrow> authCache s' = authCache s)
         \<and> (\<forall>c a. authCache s ip = Some c \<and> usable auth = Some a
                    \<and> \<not> is_401 (net E (map fst (log s))
                                  (auth_request E s ip p t a (ca_scheme c) (ca_challenge c) (ca_cookie c)))
                \<longrightarrow> authCache s' = authCache s \<and> length (log s') = Suc (length (log s)))
         \<and> authCache (snd (httpPost E ip' p' t' auth' s0)) = authCache s0"
proof (cases "authCache s ip = None \<or> usable auth = None")
  case True
  then have fresh: "authGetFresh E ip p t auth s = (r, s')"
    using run authGet_uncached [OF True] by simp
  from authGetFresh_cache [OF fresh]
  have "authCache s' = authCache s
          \<or> (\<exists>pre res1 rq2 res2 sch ch ck.
                log s' = log s @ pre @ [(plain_request ip p t, Responded res1), (rq2, Responded res2)]
                \<and> statusCode res1 = 401 \<and> detect_scheme E res1 = Some (sch, ch, ck)
                \<and> usable auth \<noteq> None
                \<and> rq_headers rq2 \<noteq> [(''Connection'', ''close'')]
                \<and> statusCode res2 \<noteq> 401 \<and> r = Inr res2
                \<and> authCache s' = (authCache s)(ip \<mapsto> \<lparr>ca_scheme = sch, ca_challenge = ch, ca_cookie = ck\<rparr>))"
    by (metis append_Nil)
  moreover have "list_all (\<lambda>(rq, oc). \<not> is_401 oc) (drop (length (log s)) (log s'))
              \<longrightarrow> authCache s' = authCache s"
    using authGetFresh_quiet [OF fresh] by blast
  ultimately show ?thesis
    using True httpPost_cache by auto
next
  case False
  then obtain c a where cached: "authCache s ip = Some c" and cred: "usable auth = Some a"
    by auto
  define rqc where "rqc = auth_request E s ip p t a (ca_scheme c) (ca_challenge c) (ca_cookie c)"
  define oc where "oc = net E (map fst (log s)) rqc"
  define s1 where "s1 = s\<lparr>log := log s @ [(rqc, oc)]\<rparr>"
  note step = authGet_cached [OF cached cred rqc_def oc_def s1_def]
  show ?thesis
  proof (cases "is_401 oc")
    case False
    with step run have "s' = s1" by simp
    then have "authCache s' = authCache s" "length (log s') = Suc (length (log s))"
      by (simp_all add: s1_def)
    then show ?thesis
      using httpPost_cache by simp
  next
    case True
    then obtain res0 where oc: "oc = Responded res0" and st: "statusCode res0 = 401"
      by (auto simp: is_401_def split: outcome.splits)
    define s2 where "s2 = s1\<lparr>authCache := (authCache s)(ip := None)\<rparr>"
    have fresh: "authGetFresh E ip p t auth s2 = (r, s')"
      using step run True by (simp add: s2_def)
    have log2: "log s2 = log s @ [(rqc, Responded res0)]"
      by (simp add: s2_def s1_def oc)
    obtain new where new: "log s' = log s2 @ new"
      using authGetFresh_log [OF fresh] by blast
    have notquiet: "\<not> list_all (\<lambda>(rq, oc). \<not> is_401 oc) (drop (length (log s)) (log s'))"
      using new log2 st by (simp add: is_401_def)
    have fast: "\<not> (\<forall>c a. authCache s ip = Some c \<and> usable auth = Some a
                    \<longrightarrow> \<not> is_401 (net E (map fst (log s))
                                  (auth_request E s ip p t a (ca_scheme c) (ca_challenge c) (ca_cookie c))))"
      using cached cred True by (auto simp: oc_def rqc_def)
    from authGetFresh_cache [OF fresh]
    have "(\<exists>c a rqc res0 rest.
                authCache s ip = Some c \<and> usable auth = Some a
                \<and> rqc = auth_request E s ip p t a (ca_scheme c) (ca_challenge c) (ca_cookie c)
                \<and> log s' = log s @ (rqc, Responded res0) # rest \<and> statusCode res0 = 401
                \<and> authCache s' = (authCache s)(ip := None))
          \<or> (\<exists>pre res1 rq2 res2 sch ch ck.
                log s' = log s @ pre @ [(plain_request ip p t, Responded res1), (rq2, Responded res2)]
                \<and> statusCode res1 = 401 \<and> detect_scheme E res1 = Some (sch, ch, ck)
                \<and> usable auth \<noteq> None
                \<and> rq_headers rq2 \<noteq> [(''Connection'', ''close'')]
                \<and> statusCode res2 \<noteq> 401 \<and> r = Inr res2
                \<and> authCache s' = (authCache s)(ip \<mapsto> \<lparr>ca_scheme = sch, ca_challenge = ch, ca_cookie = ck\<rparr>))"
    proof
      assume "authCache s' = authCache s2"
      then have "authCache s' = (authCache s)(ip := None)"
        by (simp add: s2_def)
      with cached cred new log2 st show ?thesis
        by (auto simp: rqc_def)
    next
      assume "\<exists>res1 rq2 res2 sch ch ck.
               log s' = log s2 @ [(plain_request ip p t, Responded res1), (rq2, Responded res2)]
               \<and> statusCode res1 = 401 \<and> detect_scheme E res1 = Some (sch, ch, ck)
               \<and> usable auth \<noteq> None
               \<and> rq_headers rq2 \<noteq> [(''Connection'', ''close'')]
               \<and> statusCode res2 \<noteq> 401 \<and> r = Inr res2
               \<and> authCache s' = (authCache s2)(ip \<mapsto> \<lparr>ca_scheme = sch, ca_challenge = ch, ca_cookie = ck\<rparr>)"
      then obtain res1 rq2 res2 sch ch ck where
        w: "log s' = log s2 @ [(plain_request ip p t, Responded res1), (rq2, Responded res2)]"
           "statusCode res1 = 401" "detect_scheme E res1 = Some (sch, ch, ck)" "usable auth \<noteq> None"
           "rq_headers rq2 \<noteq> [(''Connection'', ''close'')]" "statusCode res2 \<noteq> 401" "r = Inr res2"
           "authCache s' = (authCache s2)(ip \<mapsto> \<lparr>ca_scheme = sch, ca_challenge = ch, ca_cookie = ck\<rparr>)"
        by blast
      have "log s' = log s @ [(rqc, Responded res0)] @ [(plain_request ip p t, Responded res1), (rq2, Responded res2)]"
        using w(1) log2 by simp
      moreover have "authCache s' = (authCache s)(ip \<mapsto> \<lparr>ca_scheme = sch, ca_challenge = ch, ca_cookie = ck\<rparr>)"
        using w(8) by (simp add: s2_def)
      ultimately show ?thesis
        using w(2-7) by blast
    qed
    then show ?thesis
      using notquiet fast httpPost_cache cached cred True by (auto simp: oc_def rqc_def)
  qed
qed

theorem authCache_write_discipline_witness:
  "authCache (cached_state basic_entry) ''cam'' = Some basic_entry
   \<and> usable (Some admin) = Some admin
   \<and> \<not> is_401 (net (sample_env accepting_net) (map fst (log (cached_state basic_entry)))
                 (auth_request (sample_env accepting_net) (cached_state basic_entry) ''cam'' ''/x'' 4000
                    admin Basic Map.empty None))
   \<and> list_all (\<lambda>(rq, oc). \<not> is_401 oc)
        (drop (length (log (cached_state basic_entry)))
           (log (snd (authGet (sample_env accepting_net) ''cam'' ''/x'' 4000 (Some admin)
                        (cached_state basic_entry)))))
   \<and> authCache (snd (authGet (sample_env accepting_net) ''cam'' ''/x'' 4000 (Some admin)
                        (cached_state basic_entry)))
       = authCache (cached_state basic_entry)
   \<and> length (log (snd (authGet (sample_env accepting_net) ''cam'' ''/x'' 4000 (Some admin)
                          (cached_state basic_entry)))) = 1
   \<and> authCache (snd (httpPost (sample_env accepting_net) ''cam'' ''/cgi-bin/param.cgi?post_reboot''
                        4000 (Some admin) (cached_state basic_entry)))
       = authCache (cached_state basic_entry)"
proof -
  have h1: "authCache (cached_state basic_entry) ''cam'' = Some basic_entry"
    by (simp add: cached_state_def)
  have h2: "usable (Some admin) = Some admin"
    by (simp add: usable_def admin_def)
  have h3: "\<not> is_401 (net (sample_env accepting_net) (map fst (log (cached_state basic_entry)))
                 (auth_request (sample_env accepting_net) (cached_state basic_entry) ''cam'' ''/x'' 4000
                    admin (ca_scheme basic_entry) (ca_challenge basic_entry) (ca_cookie basic_entry)))"
    by (simp add: accepting_net_def eval_transport)
  have h4: "list_all (\<lambda>(rq, oc). \<not> is_401 oc)
        (drop (length (log (cached_state basic_entry)))
           (log (snd (authGet (sample_env accepting_net) ''cam'' ''/x'' 4000 (Some admin)
                        (cached_state basic_entry)))))"
    by (simp add: accepting_net_def authGet_def http_request_def eval_transport)
  from authCache_write_discipline [OF prod.collapse [symmetric],
      of "sample_env accepting_net" "''cam''" "''/x''" 4000 "Some admin" "cached_state basic_entry"
         "''cam''" "''/cgi-bin/param.cgi?post_reboot''" 4000 "Some admin" "cached_state basic_entry"]
    h1 h2 h3 h4
  show ?thesis
    by (simp add: basic_entry_def cached_state_def)
qed

section \<open>The position of \<open>zoomTo\<close>\<close>













section \<open>Bodies that report a failed authentication\<close>

text \<open>
\<open>str_includes\<close> is containment as a contiguous sublist.
\<close>

lemma str_includes_sublist: "str_includes s t = sublist t s"
proof (induction s)
  case Nil
  show ?case by simp
next
  case (Cons c cs)
  then show ?case
    by (auto simp: sublist_Cons_right)
qed

subsection \<open>Movement\<close>

text \<open>\<open>camera_ptz\<close> reports a body that mentions 401 as an authentication error.\<close>

lemma camera_ptz_checks_body:
  assumes "ip \<noteq> ''mock''"
    and "httpGet E ip (ptz_path E cmd (arg_or s1 ''5'') (arg_or s2 ''5'')) 4000 auth s = (Inr resp, s')"
    and "mentions_401 resp"
  shows "camera_ptz E ip cmd s1 s2 auth s = (Failure ''Authentication required for PTZ control'', s')"
  using assms by (simp add: camera_ptz_def mentions_401_def)

lemma get_and_succeed_ignores_body:
  assumes "ip \<noteq> ''mock''" and "httpGet E ip p 4000 auth s = (Inr resp, s')"
  shows "get_and_succeed E ip p auth s = (Success (), s')"
  using assms by (simp add: get_and_succeed_def)

text \<open>
  Claim C4 asks the same of zoom, focus, zoomTo, osdNavigate and ptzReset. They do not
  read the body: whenever the read resolves, whatever the body says, they answer
  success. On a host that answers 200 with the body \<^verbatim>\<open>401 Unauthorized\<close>, zoom
  reports success where ptz reports the authentication error.
\<close>

theorem movement_ignores_unauthorized_body:
  assumes "ip \<noteq> ''mock''"
  shows "(httpGet E ip (''/cgi-bin/ptzctrl.cgi?ptzcmd&'' @ dir @ ''&'' @ arg_or spd ''3'') 4000 auth s
            = (Inr resp, s')
          \<longrightarrow> camera_zoom E ip dir spd auth s = (Success (), s'))
       \<and> (httpGet E ip (''/cgi-bin/ptzctrl.cgi?ptzcmd&'' @ cmd @ ''&3'') 4000 auth s = (Inr resp, s')
          \<longrightarrow> camera_focus E ip cmd auth s = (Success (), s'))
       \<and> (httpGet E ip (zoomTo_path position (arg_or speed ''7'')) 4000 auth s = (Inr resp, s')
          \<longrightarrow> camera_zoomTo E ip position speed auth s = (Success (), s'))
       \<and> (httpGet E ip (''/cgi-bin/ptzctrl.cgi?ptzcmd&'' @ cmd) 4000 auth s = (Inr resp, s')
          \<longrightarrow> camera_osdNavigate E ip cmd auth s = (Success (), s'))
       \<and> (httpGet E ip ''/cgi-bin/param.cgi?pan_tiltdrive_reset'' 4000 auth s = (Inr resp, s')
          \<longrightarrow> camera_ptzReset E ip auth s = (Success (), s'))"
  using assms
  by (simp add: camera_zoom_def camera_focus_def camera_zoomTo_def camera_osdNavigate_def
      camera_ptzReset_def get_and_succeed_ignores_body)

theorem movement_ignores_unauthorized_body_witness:
  "''192.168.1.20'' \<noteq> ''mock''
   \<and> fst (httpGet (sample_env unauthorized_body_net) ''192.168.1.20''
             ''/cgi-bin/ptzctrl.cgi?ptzcmd&zoomin&3'' 4000 None empty_state) = Inr ''401 Unauthorized''
   \<and> fst (camera_zoom (sample_env unauthorized_body_net) ''192.168.1.20'' ''zoomin'' (Some ''3'') None
             empty_state) = Success ()
   \<and> fst (camera_ptz (sample_env unauthorized_body_net) ''192.168.1.20'' ''up'' (Some ''5'') (Some ''5'')
             None empty_state) = Failure ''Authentication required for PTZ control''"
proof -
  have h1: "''192.168.1.20'' \<noteq> ''mock''" by simp
  have h2: "fst (httpGet (sample_env unauthorized_body_net) ''192.168.1.20''
             ''/cgi-bin/ptzctrl.cgi?ptzcmd&zoomin&3'' 4000 None empty_state) = Inr ''401 Unauthorized''"
    by (simp add: unauthorized_body_net_def eval_get)
  then have h3: "httpGet (sample_env unauthorized_body_net) ''192.168.1.20''
             (''/cgi-bin/ptzctrl.cgi?ptzcmd&'' @ ''zoomin'' @ ''&'' @ arg_or (Some ''3'') ''3'') 4000 None
             empty_state
           = (Inr ''401 Unauthorized'',
              snd (httpGet (sample_env unauthorized_body_net) ''192.168.1.20''
                     ''/cgi-bin/ptzctrl.cgi?ptzcmd&zoomin&3'' 4000 None empty_state))"
    by (simp add: arg_or_def) (metis prod.collapse)
  have h4: "fst (camera_ptz (sample_env unauthorized_body_net) ''192.168.1.20'' ''up'' (Some ''5'')
                   (Some ''5'') None empty_state) = Failure ''Authentication required for PTZ control''"
    by (simp add: camera_ptz_def ptz_path_def arg_or_def unauthorized_body_net_def eval_get)
  from movement_ignores_unauthorized_body [OF h1, of "sample_env unauthorized_body_net" "''zoomin''"
      "Some ''3''" None empty_state "''401 Unauthorized''"] h3 h1 h2 h4
  show ?thesis
    by simp
qed

subsection \<open>Snapshot\<close>

text \<open>
  A body that \<open>fetch_snapshot\<close> delivers is the unmodified body of a response whose
  status is not 404, from the first path or, when the first read was rejected, from the
  second.
\<close>

lemma fetch_snapshot_body:
  assumes "fetch_snapshot E ip auth s = (Inr buf, s')"
  shows "(\<exists>res. authGet E ip ''/cgi-bin/snapshot.cgi'' 5000 auth s = (Inr res, s')
               \<and> statusCode res \<noteq> 404 \<and> buf = concat (chunks res))
         \<or> (\<exists>e s1 res. httpGetBinary E ip ''/cgi-bin/snapshot.cgi'' 5000 auth s = (Inl e, s1)
               \<and> authGet E ip ''/snapshot.jpg'' 5000 auth s1 = (Inr res, s')
               \<and> statusCode res \<noteq> 404 \<and> buf = concat (chunks res))"
proof (cases "httpGetBinary E ip ''/cgi-bin/snapshot.cgi'' 5000 auth s")
  case (Pair r1 s1)
  show ?thesis
  proof (cases r1)
    case (Inr b)
    with Pair assms have "b = buf" "s1 = s'"
      by (simp_all add: fetch_snapshot_def)
    with Pair Inr show ?thesis
      by (auto simp: httpGetBinary_def split: prod.splits sum.splits if_splits)
  next
    case (Inl e)
    with Pair assms have "httpGetBinary E ip ''/snapshot.jpg'' 5000 auth s1 = (Inr buf, s')"
      by (simp add: fetch_snapshot_def)
    then have "\<exists>res. authGet E ip ''/snapshot.jpg'' 5000 auth s1 = (Inr res, s')
               \<and> statusCode res \<noteq> 404 \<and> buf = concat (chunks res)"
      by (auto simp: httpGetBinary_def split: prod.splits sum.splits if_splits)
    with Pair Inl show ?thesis by blast
  qed
qed

text \<open>
  Claim C5. For every snapshot request to a real host that obtains a body: a body
  shorter than 1000 bytes whose text contains \<^verbatim>\<open><html\<close> or \<^verbatim>\<open><!DOCTYPE\<close>
  yields a failure, the authentication error when the text also contains \<^verbatim>\<open>401\<close>
  or \<^verbatim>\<open>Unauthorized\<close> and the error-page error otherwise; every body of at least
  1000 bytes and every shorter body that is not HTML is returned, unmodified, as base64
  with success.
\<close>

theorem snapshot_body_classification:
  assumes real: "ip \<noteq> ''mock''"
    and body: "fetch_snapshot E ip auth s = (Inr buf, s')"
  shows "camera_snapshot E ip auth s =
           (if length buf < 1000 \<and> looks_like_html (utf8 E buf)
            then Failure (if mentions_401 (utf8 E buf)
                          then ''Authentication required for snapshots''
                          else ''Camera returned error page instead of image'')
            else Success (base64 E buf, None),
            s')
         \<and> ((\<exists>res. authGet E ip ''/cgi-bin/snapshot.cgi'' 5000 auth s = (Inr res, s')
                  \<and> statusCode res \<noteq> 404 \<and> buf = concat (chunks res))
            \<or> (\<exists>e s1 res. httpGetBinary E ip ''/cgi-bin/snapshot.cgi'' 5000 auth s = (Inl e, s1)
                  \<and> authGet E ip ''/snapshot.jpg'' 5000 auth s1 = (Inr res, s')
                  \<and> statusCode res \<noteq> 404 \<and> buf = concat (chunks res)))"
proof -
  have "camera_snapshot E ip auth s = (snapshot_reply E buf, s')"
    using real body by (simp add: camera_snapshot_def)
  moreover have "snapshot_reply E buf =
           (if length buf < 1000 \<and> looks_like_html (utf8 E buf)
            then Failure (if mentions_401 (utf8 E buf)
                          then ''Authentication required for snapshots''
                          else ''Camera returned error page instead of image'')
            else Success (base64 E buf, None))"
    by (simp add: snapshot_reply_def looks_like_html_def mentions_401_def Let_def)
  ultimately show ?thesis
    using fetch_snapshot_body [OF body] by simp
qed

theorem snapshot_body_classification_witness:
  \<open>''192.168.1.20'' \<noteq> ''mock''
   \<and> fst (fetch_snapshot (sample_env error_page_net) ''192.168.1.20'' None empty_state)
       = Inr ''<html><body>401 Unauthorized</body></html>''
   \<and> fst (camera_snapshot (sample_env error_page_net) ''192.168.1.20'' None empty_state)
       = Failure ''Authentication required for snapshots''\<close>
proof -
  have h1: "''192.168.1.20'' \<noteq> ''mock''" by simp
  have h2: \<open>fst (fetch_snapshot (sample_env error_page_net) ''192.168.1.20'' None empty_state)
             = Inr ''<html><body>401 Unauthorized</body></html>''\<close>
    by (simp add: fetch_snapshot_def httpGetBinary_def authGet_def authGetFresh_def http_request_def
        empty_state_def error_page_net_def eval_transport)
  then have h3: \<open>fetch_snapshot (sample_env error_page_net) ''192.168.1.20'' None empty_state
             = (Inr ''<html><body>401 Unauthorized</body></html>'',
                snd (fetch_snapshot (sample_env error_page_net) ''192.168.1.20'' None empty_state))\<close>
    by (metis prod.collapse)
  have h4: \<open>looks_like_html ''<html><body>401 Unauthorized</body></html>''\<close>
    by (simp add: looks_like_html_def)
  have h5: \<open>mentions_401 ''<html><body>401 Unauthorized</body></html>''\<close>
    by (simp add: mentions_401_def)
  from snapshot_body_classification [OF h1 h3] h1 h2 h4 h5 show ?thesis
    by simp
qed

section \<open>Connect tolerates partial failure\<close>

lemma split_lines_empty: "split_lines [] = [[]]"
  by (subst split_lines.simps) simp

lemma parse_empty: "parse N E [] = Map.empty"
  by (simp add: parse_def split_lines_empty parse_line_def)

lemma conf_group_UNIV: "UNIV = {ImageConf, ExposureConf, FocusConf}"
  using conf_group.exhaust by auto

lemma group_steps:
  "c_info (foldl (group_step res) L order) = c_info L
   \<and> hadAnyResponse (foldl (group_step res) L order)
       = (hadAnyResponse L \<or> (\<exists>g \<in> set order. \<not> isl (res g)))
   \<and> errors (foldl (group_step res) L order)
       = errors L @ map (\<lambda>g. group_label g @ '': '' @ projl (res g)) (filter (\<lambda>g. isl (res g)) order)"
proof (induction order arbitrary: L)
  case Nil
  show ?case by simp
next
  case (Cons g gs)
  have step: "c_info (group_step res L g) = c_info L"
    "hadAnyResponse (group_step res L g) = (hadAnyResponse L \<or> \<not> isl (res g))"
    "errors (group_step res L g)
       = errors L @ (if isl (res g) then [group_label g @ '': '' @ projl (res g)] else [])"
    by (cases "res g"; simp add: group_step_def)+
  show ?case
    using Cons [of "group_step res L g"] step by auto
qed

lemma group_config_text: "parse N E (group_text res g) = group_config N E res g"
  by (simp add: group_text_def group_config_def parse_empty split: sum.splits)

lemma info_of_empty: "info_of N Map.empty = default_info"
  by (simp add: info_of_def first_truthy_def val_truthy_def default_info_def)

lemma first_truthy_missing: "a = None \<Longrightarrow> b = None \<Longrightarrow> first_truthy N a b d = JStr d"
  by (simp add: first_truthy_def val_truthy_def)

text \<open>A read is rejected only by the transport: a response of any status resolves it.\<close>

lemma httpGet_resolves:
  assumes "authGet E ip p t auth s = (Inr res, s')"
  shows "httpGet E ip p t auth s = (Inr (concat (map (utf8 E) (chunks res))), s')"
  using assms by (simp add: httpGet_def)

text \<open>
  Claim C2. For every Connect against a real host, once the three group reads have
  settled: the result is a failure if and only if all four reads (device-info, image,
  exposure, focus) failed, and it then carries the first error recorded, that of the
  device-info read; if at least one read succeeded the result is a success whose device
  information comes from the device-info body (every field missing there replaced by its
  default, all of them when that read failed) and whose configuration merges the bodies
  of the group reads that responded.
\<close>

theorem connect_partial_failure:
  assumes real: "ip \<noteq> ''mock''" and settled: "set order = UNIV"
  shows "((\<exists>msg. camera_connect N E ip mockc dev order res = Failure msg) \<longleftrightarrow> all_failed dev res)
       \<and> (\<forall>m. all_failed dev res \<and> dev = Inl m \<longrightarrow>
              camera_connect N E ip mockc dev order res = Failure (''Device config: '' @ m))
       \<and> (\<not> all_failed dev res \<longrightarrow>
              camera_connect N E ip mockc dev order res
                = Success (info_of N (case dev of Inr d \<Rightarrow> parse N E d | Inl m \<Rightarrow> Map.empty),
                           group_config N E res ImageConf ++ group_config N E res ExposureConf
                             ++ group_config N E res FocusConf))
       \<and> (isl dev \<longrightarrow> info_of N (case dev of Inr d \<Rightarrow> parse N E d | Inl m \<Rightarrow> Map.empty) = default_info)
       \<and> (\<forall>i. i ''device_model'' = None \<and> i ''model'' = None \<longrightarrow> model (info_of N i) = JStr ''PTZOptics Move SE'')
       \<and> (\<forall>i. i ''serial_number'' = None \<and> i ''sn'' = None \<longrightarrow> serial (info_of N i) = JStr ''N/A'')
       \<and> (\<forall>i. i ''firmware_version'' = None \<and> i ''fw'' = None \<longrightarrow> firmware (info_of N i) = JStr ''N/A'')"
proof -
  define L0 :: "'a connect_locals" where "L0 = device_step N E dev connect_init"
  define L where "L = foldl (group_step res) L0 order"
  have any: "hadAnyResponse L = (\<not> all_failed dev res)"
    using group_steps [of res L0 order] settled
    by (cases dev)
       (auto simp: L_def L0_def device_step_def connect_init_def all_failed_def conf_group_UNIV)
  have info: "c_info L = (case dev of Inr d \<Rightarrow> parse N E d | Inl m \<Rightarrow> Map.empty)"
    using group_steps [of res L0 order]
    by (cases dev) (simp_all add: L_def L0_def device_step_def connect_init_def)
  have errs: "dev = Inl m \<Longrightarrow> \<exists>es. errors L = (''Device config: '' @ m) # es" for m
    using group_steps [of res L0 order]
    by (simp add: L_def L0_def device_step_def connect_init_def)
  have result: "camera_connect N E ip mockc dev order res =
          (if hadAnyResponse L
           then Success (info_of N (c_info L),
                         group_config N E res ImageConf ++ group_config N E res ExposureConf
                           ++ group_config N E res FocusConf)
           else Failure (case errors L of
                            [] \<Rightarrow> ''Camera unreachable - check IP address and network connection''
                          | e # es \<Rightarrow>
                              (if e = []
                               then ''Camera unreachable - check IP address and network connection''
                               else e)))"
    using real by (simp add: camera_connect_def L_def L0_def Let_def group_config_text)
  have failed: "all_failed dev res \<and> dev = Inl m \<longrightarrow>
              camera_connect N E ip mockc dev order res = Failure (''Device config: '' @ m)" for m
    using result any errs [of m] by auto
  have isl_dev: "all_failed dev res \<Longrightarrow> \<exists>m. dev = Inl m"
    by (cases dev) (simp_all add: all_failed_def)
  have iff: "(\<exists>msg. camera_connect N E ip mockc dev order res = Failure msg) \<longleftrightarrow> all_failed dev res"
    using result any failed isl_dev by auto
  have ok: "\<not> all_failed dev res \<longrightarrow>
              camera_connect N E ip mockc dev order res
                = Success (info_of N (case dev of Inr d \<Rightarrow> parse N E d | Inl m \<Rightarrow> Map.empty),
                           group_config N E res ImageConf ++ group_config N E res ExposureConf
                             ++ group_config N E res FocusConf)"
    using result any info by simp
  have dflt: "isl dev \<longrightarrow> info_of N (case dev of Inr d \<Rightarrow> parse N E d | Inl m \<Rightarrow> Map.empty) = default_info"
    by (cases dev) (simp_all add: info_of_empty)
  have fields: "(\<forall>i. i ''device_model'' = None \<and> i ''model'' = None \<longrightarrow> model (info_of N i) = JStr ''PTZOptics Move SE'')
       \<and> (\<forall>i. i ''serial_number'' = None \<and> i ''sn'' = None \<longrightarrow> serial (info_of N i) = JStr ''N/A'')
       \<and> (\<forall>i. i ''firmware_version'' = None \<and> i ''fw'' = None \<longrightarrow> firmware (info_of N i) = JStr ''N/A'')"
    by (simp add: info_of_def first_truthy_missing)
  from iff failed ok dflt fields show ?thesis by blast
qed

theorem connect_partial_failure_witness:
  "''192.168.1.20'' \<noteq> ''mock''
   \<and> set [ExposureConf, ImageConf, FocusConf] = UNIV
   \<and> \<not> all_failed (Inl ''Connection timed out - camera not responding'') sample_reads
   \<and> (case camera_connect sample_numeric (sample_env silent_net) ''192.168.1.20'' Map.empty
             (Inl ''Connection timed out - camera not responding'')
             [ExposureConf, ImageConf, FocusConf] sample_reads of
        Success (i, c) \<Rightarrow>
          i = default_info \<and> c ''bright'' = Some (JNum 7) \<and> c ''wb_mode'' = Some (JStr ''auto'')
          \<and> c ''gain'' = Some (JNum 0) \<and> c ''focus_mode'' = None
      | Failure msg \<Rightarrow> False)
   \<and> all_failed (Inl ''Connection timed out - camera not responding'') failed_reads
   \<and> camera_connect sample_numeric (sample_env silent_net) ''192.168.1.20'' Map.empty
        (Inl ''Connection timed out - camera not responding'')
        [ExposureConf, ImageConf, FocusConf] failed_reads
       = Failure ''Device config: Connection timed out - camera not responding''"
proof -
  have h1: "''192.168.1.20'' \<noteq> ''mock''" by simp
  have h2: "set [ExposureConf, ImageConf, FocusConf] = UNIV"
    by (auto simp: conf_group_UNIV)
  have h3: "\<not> all_failed (Inl ''Connection timed out - camera not responding'') sample_reads"
    by (simp add: all_failed_def sample_reads_def)
  have h4: "all_failed (Inl ''Connection timed out - camera not responding'') failed_reads"
    by (simp add: all_failed_def failed_reads_def)
  have c1: "group_config sample_numeric (sample_env silent_net) sample_reads ImageConf
              = [''bright'' \<mapsto> JNum 7, ''wb_mode'' \<mapsto> JStr ''auto'']"
    by (simp add: group_config_def sample_reads_def parse_def split_lines.simps is_newline_def
        parse_line_def obj_set_def sample_numeric_def ascii_trim_def ascii_space_def digit_char_def
        dec_value_def digit_value_def Let_def)
  have c2: "group_config sample_numeric (sample_env silent_net) sample_reads ExposureConf
              = [''gain'' \<mapsto> JNum 0]"
    by (simp add: group_config_def sample_reads_def parse_def split_lines.simps is_newline_def
        parse_line_def obj_set_def sample_numeric_def ascii_trim_def ascii_space_def digit_char_def
        dec_value_def digit_value_def Let_def)
  have c3: "group_config sample_numeric (sample_env silent_net) sample_reads FocusConf = Map.empty"
    by (simp add: group_config_def sample_reads_def)
  from connect_partial_failure [OF h1 h2, of sample_numeric "sample_env silent_net" Map.empty
      "Inl ''Connection timed out - camera not responding''" sample_reads]
    connect_partial_failure [OF h1 h2, of sample_numeric "sample_env silent_net" Map.empty
      "Inl ''Connection timed out - camera not responding''" failed_reads]
    h1 h2 h3 h4
  show ?thesis
    by (simp add: c1 c2 c3)
qed

section \<open>Closing the discovery socket\<close>

text \<open>Messages neither close the socket nor settle the promise.\<close>

lemma discover_messages:
  "socket_open (foldl discover_step d (map Message addrs)) = socket_open d
   \<and> close_calls (foldl discover_step d (map Message addrs)) = close_calls d
   \<and> closes_on_closed (foldl discover_step d (map Message addrs)) = closes_on_closed d
   \<and> resolved (foldl discover_step d (map Message addrs)) = resolved d"
  by (induction addrs arbitrary: d) (simp_all add: discover_step_def)

lemma discover_window_only:
  "close_calls (discover_run (map Message addrs @ [WindowExpired])) = 1
   \<and> closes_on_closed (discover_run (map Message addrs @ [WindowExpired])) = 0
   \<and> \<not> socket_open (discover_run (map Message addrs @ [WindowExpired]))"
  using discover_messages [of discover_init addrs]
  by (simp add: discover_run_def discover_step_def close_and_resolve_def resolve_found_def
      discover_init_def split: option.splits)

text \<open>
  Claim C9 says that the socket is closed exactly once in every execution. That holds
  when the window expires without a socket error (\<open>discover_window_only\<close>). After a
  socket error the handler closes the socket, and the timer, which is not cleared, calls
  \<^verbatim>\<open>client.close()\<close> again when the window expires: two calls, the second on a
  closed socket.
\<close>

theorem discover_error_closes_twice:
  "close_calls (discover_run (map Message addrs @ [SocketError, WindowExpired])) = 2
   \<and> closes_on_closed (discover_run (map Message addrs @ [SocketError, WindowExpired])) = 1"
  using discover_messages [of discover_init addrs]
  by (simp add: discover_run_def discover_step_def close_and_resolve_def resolve_found_def
      discover_init_def split: option.splits)

end
